theory Spec2Isabelle
  imports Main
begin

section \<open>Link resolution and media normalisation of the Douyin and Xiaohongshu parsers\<close>

text \<open>
  The theory embeds \<^verbatim>\<open>parsers/douyin/__init__.py\<close> and \<^verbatim>\<open>parsers/xiaohongshu.py\<close>.
  A Python \<^verbatim>\<open>str\<close> is a \<open>string\<close> holding the UTF-8 bytes of the text (every pattern the
  parsers search for is ASCII, and an ASCII byte never occurs inside a multi-byte
  sequence), \<^verbatim>\<open>bytes\<close> is a list of bytes as well. Exceptions are values of \<open>error\<close>,
  the network, the image library and the schema modules that are not part of the two
  files are fields of the record \<open>world\<close>, and what a call does to the outside (the
  requests it sends, the lines it logs) is the list of events it returns.
\<close>

subsection \<open>Strings\<close>

type_synonym bytes = "char list"

text \<open>\<^verbatim>\<open>s.startswith(p)\<close>, with the pattern first.\<close>

fun starts_with :: "string \<Rightarrow> string \<Rightarrow> bool" where
  "starts_with [] s = True"
| "starts_with (p # ps) [] = False"
| "starts_with (p # ps) (c # cs) = (p = c \<and> starts_with ps cs)"

text \<open>\<^verbatim>\<open>p in s\<close>: the text \<open>s\<close> has an occurrence of \<open>p\<close>.\<close>

fun contains :: "string \<Rightarrow> string \<Rightarrow> bool" where
  "contains p [] = (p = [])"
| "contains p (c # cs) = (starts_with p (c # cs) \<or> contains p cs)"

text \<open>
  The characters \<^verbatim>\<open>\s\<close> and \<^verbatim>\<open>str.strip()\<close> take for whitespace, among the ASCII ones:
  tab, line feed, vertical tab, form feed, carriage return, the four separators
  \<^verbatim>\<open>\x1c\<close> to \<^verbatim>\<open>\x1f\<close> and the space.
\<close>

definition is_space :: "char \<Rightarrow> bool" where
  "is_space c = (c \<in> set [CHR 0x09, CHR 0x0A, CHR 0x0B, CHR 0x0C, CHR 0x0D,
                            CHR 0x1C, CHR 0x1D, CHR 0x1E, CHR 0x1F, CHR 0x20])"

definition strip :: "string \<Rightarrow> string" where
  "strip s = rev (dropWhile is_space (rev (dropWhile is_space s)))"

text \<open>
  The lazy group \<^verbatim>\<open>(.*?)\<close> followed by a literal: the text up to the first occurrence of
  the literal. With \<^verbatim>\<open>re.DOTALL\<close> the dot matches every character (\<open>text_before\<close>);
  without it the dot stops at a line feed (\<open>line_before\<close>).
\<close>

fun text_before :: "string \<Rightarrow> string \<Rightarrow> string option" where
  "text_before p [] = (if p = [] then Some [] else None)"
| "text_before p (c # cs) =
     (if starts_with p (c # cs) then Some []
      else map_option (Cons c) (text_before p cs))"

fun line_before :: "string \<Rightarrow> string \<Rightarrow> string option" where
  "line_before p [] = (if p = [] then Some [] else None)"
| "line_before p (c # cs) =
     (if starts_with p (c # cs) then Some []
      else if c = CHR 0x0A then None
      else map_option (Cons c) (line_before p cs))"

text \<open>
  \<^verbatim>\<open>s.replace(old, new)\<close> and \<^verbatim>\<open>s.replace(old, new, 1)\<close> for a non-empty \<open>old\<close>: the
  occurrences are taken from the left and do not overlap.
\<close>

fun replace :: "string \<Rightarrow> string \<Rightarrow> string \<Rightarrow> string" where
  "replace old new [] = []"
| "replace old new (c # cs) =
     (if old \<noteq> [] \<and> starts_with old (c # cs)
      then new @ replace old new (drop (length old - 1) cs)
      else c # replace old new cs)"

fun replace_first :: "string \<Rightarrow> string \<Rightarrow> string \<Rightarrow> string" where
  "replace_first old new [] = []"
| "replace_first old new (c # cs) =
     (if old \<noteq> [] \<and> starts_with old (c # cs)
      then new @ drop (length old - 1) cs
      else c # replace_first old new cs)"

text \<open>\<^verbatim>\<open>str(n)\<close> for an integer, as the f-strings print a status code.\<close>

fun digits :: "nat \<Rightarrow> string" where
  "digits n =
     (if n < 10 then [''0123456789'' ! n]
      else digits (n div 10) @ [''0123456789'' ! (n mod 10)])"

declare digits.simps [simp del]

definition str_int :: "int \<Rightarrow> string" where
  "str_int i = (if i < 0 then CHR ''-'' # digits (nat (- i)) else digits (nat i))"

subsection \<open>Values, errors and effects\<close>

text \<open>
  The Python values a JSON document decodes to: \<^verbatim>\<open>None\<close>, \<^verbatim>\<open>bool\<close>, \<^verbatim>\<open>int\<close>, \<^verbatim>\<open>str\<close>,
  \<^verbatim>\<open>list\<close> and \<^verbatim>\<open>dict\<close> (the items in insertion order). Floats are left out.
\<close>

datatype json =
    JNull
  | JBool bool
  | JInt int
  | JStr string
  | JArr "json list"
  | JObj "(string \<times> json) list"

text \<open>The truth value of \<^verbatim>\<open>if x:\<close> and \<^verbatim>\<open>not x\<close>.\<close>

fun truthy :: "json \<Rightarrow> bool" where
  "truthy JNull = False"
| "truthy (JBool b) = b"
| "truthy (JInt i) = (i \<noteq> 0)"
| "truthy (JStr s) = (s \<noteq> [])"
| "truthy (JArr xs) = (xs \<noteq> [])"
| "truthy (JObj kvs) = (kvs \<noteq> [])"

text \<open>
  \<open>ParseException\<close> is the plugin's own exception, the only one the fallback chains
  catch. \<open>DecodeError\<close> stands for \<^verbatim>\<open>msgspec.DecodeError\<close> and \<^verbatim>\<open>json.JSONDecodeError\<close>,
  \<open>ValidationError\<close> for \<^verbatim>\<open>msgspec.ValidationError\<close>, \<open>TransportError\<close> and
  \<open>HTTPStatusError\<close> for the exceptions of \<^verbatim>\<open>httpx\<close>; the others are Python's.
\<close>

datatype error =
    ParseException string
  | DecodeError
  | ValidationError
  | TransportError
  | HTTPStatusError
  | IndexError
  | KeyError
  | AttributeError

datatype header_profile = Default_headers | Ios_headers | Android_headers

text \<open>What \<^verbatim>\<open>client.get\<close> gives: an exception of the transport, or a response with its
  status code and text.\<close>

datatype http_outcome = Transport_failure | Response int string

datatype event =
    Http_get header_profile string
  | Log_warning string
  | Log_debug string

subsection \<open>The canonical result\<close>

text \<open>
  Modelled from the spec: \<^verbatim>\<open>ImageContent\<close>, \<^verbatim>\<open>create_video_content\<close>,
  \<^verbatim>\<open>create_dynamic_contents\<close>, \<^verbatim>\<open>create_author\<close> and \<^verbatim>\<open>self.result\<close> live in the base
  parser, which is not among the two files. The spec's data model gives a content as
  Video(url, cover_url, duration), Image(source) or Dynamic(url), an author as a display
  name with an avatar, and the result as title, optional text, author, optional timestamp
  and the ordered contents; each helper builds the value from its arguments. An image
  content holds the task that will produce its file: \<^verbatim>\<open>_create_jpg_task\<close> for converted
  bytes, the downloader for a URL. The video URL is whatever Python value the caller
  passes; an argument the caller leaves out is \<open>None\<close>.
\<close>

datatype image_source = Jpg_data bytes | Url_str string

datatype image_task = Create_jpg_task bytes | Download_img string

datatype content =
    VideoContent json "string option" "int option"
  | ImageContent image_task
  | DynamicContent string

record author =
  author_name :: string
  author_avatar :: string

record parse_result =
  res_title :: string
  res_text :: "string option"
  res_author :: author
  res_timestamp :: "int option"
  res_contents :: "content list"

definition create_video_content :: "json \<Rightarrow> string option \<Rightarrow> int option \<Rightarrow> content" where
  "create_video_content url cover_url duration = VideoContent url cover_url duration"

definition create_dynamic_contents :: "string list \<Rightarrow> content list" where
  "create_dynamic_contents dynamic_urls = map DynamicContent dynamic_urls"

definition create_author :: "string \<Rightarrow> string \<Rightarrow> author" where
  "create_author name avatar_url = \<lparr>author_name = name, author_avatar = avatar_url\<rparr>"

definition result :: "string \<Rightarrow> string option \<Rightarrow> author \<Rightarrow> int option \<Rightarrow> content list
    \<Rightarrow> parse_result" where
  "result title txt auth timestamp contents =
     \<lparr>res_title = title, res_text = txt, res_author = auth,
      res_timestamp = timestamp, res_contents = contents\<rparr>"

text \<open>
  \<^verbatim>\<open>create_image_contents\<close> (the same in both parsers): one image content per source, a
  temporary-file task for bytes and a download for a URL.
\<close>

fun create_image_contents :: "image_source list \<Rightarrow> content list" where
  "create_image_contents [] = []"
| "create_image_contents (Jpg_data b # image_sources) =
     ImageContent (Create_jpg_task b) # create_image_contents image_sources"
| "create_image_contents (Url_str u # image_sources) =
     ImageContent (Download_img u) # create_image_contents image_sources"

subsection \<open>The outside world\<close>

text \<open>
  The Douyin schema modules \<^verbatim>\<open>.video\<close> and \<^verbatim>\<open>.slides\<close> are not among the two files:
  \<open>video_data\<close> and \<open>slides_data\<close> hold the values of the properties that \<^verbatim>\<open>parse_video\<close>
  and \<^verbatim>\<open>parse_slides\<close> read, and the two decoders are taken from the world.
\<close>

record video_data =
  vd_image_urls :: "string list"
  vd_video_url :: "string option"
  vd_cover_url :: "string option"
  vd_video_duration :: "int option"
  vd_nickname :: string
  vd_avatar_url :: string
  vd_desc :: string
  vd_create_time :: int

record slides_data =
  sd_image_urls :: "string list"
  sd_dynamic_urls :: "string list"
  sd_name :: string
  sd_avatar_url :: string
  sd_desc :: string
  sd_create_time :: int

text \<open>
  \<open>http_get\<close> answers a page request sent with a header profile. \<open>slides_get\<close> is the
  request of \<^verbatim>\<open>parse_slides\<close> for a video id: the body, or the exception that the request
  or \<^verbatim>\<open>raise_for_status\<close> raised. \<open>image_get\<close> is the
  request of one conversion task, by URL and index: the body, or \<open>None\<close> when the request
  or \<^verbatim>\<open>raise_for_status\<close> raised. \<open>to_jpeg\<close> is the image library opening the body,
  converting it to RGB and saving it as JPEG: the bytes, or \<open>None\<close> when it raised.
  \<open>finish_time\<close> says when the conversion task of an index completes. \<open>json_loads\<close> is
  \<^verbatim>\<open>json.loads\<close>, \<open>None\<close> when it raises.
\<close>

record world =
  http_get :: "header_profile \<Rightarrow> string \<Rightarrow> http_outcome"
  slides_get :: "string \<Rightarrow> error + bytes"
  image_get :: "string \<Rightarrow> nat \<Rightarrow> bytes option"
  to_jpeg :: "bytes \<Rightarrow> bytes option"
  finish_time :: "nat \<Rightarrow> nat"
  decode_router_data :: "string \<Rightarrow> error + video_data"
  decode_slides_info :: "string \<Rightarrow> error + slides_data list"
  json_loads :: "string \<Rightarrow> json option"

subsection \<open>The image conversion stage\<close>

text \<open>
  \<^verbatim>\<open>_convert_webp_to_jpg\<close> (the same in both parsers up to the header profile): every
  exception is caught and turned into \<open>(index, None)\<close>.
\<close>

definition convert_webp_to_jpg :: "world \<Rightarrow> string \<Rightarrow> nat \<Rightarrow> nat \<times> bytes option" where
  "convert_webp_to_jpg w url index =
     (case image_get w url index of
        None \<Rightarrow> (index, None)
      | Some body \<Rightarrow>
          (case to_jpeg w body of
             None \<Rightarrow> (index, None)
           | Some jpg_data \<Rightarrow> (index, Some jpg_data)))"

text \<open>
  \<^verbatim>\<open>asyncio.gather\<close>: the tasks complete in the order of their finishing times, each
  result is kept with the position of its task, and the list returned holds the results
  by position.
\<close>

definition completion_order :: "(nat \<Rightarrow> nat) \<Rightarrow> nat \<Rightarrow> nat list" where
  "completion_order finish n = sort_key finish [0..<n]"

definition gather :: "(nat \<Rightarrow> nat) \<Rightarrow> 'a list \<Rightarrow> 'a list" where
  "gather finish tasks =
     map snd (sort_key fst
       (map (\<lambda>k. (k, tasks ! k)) (completion_order finish (length tasks))))"

text \<open>
  The loop over the sorted results: the converted bytes when \<^verbatim>\<open>jpg_data\<close> is true (neither
  \<^verbatim>\<open>None\<close> nor empty), the original URL \<^verbatim>\<open>image_urls[idx]\<close> otherwise; the index is
  never negative, and past the end it raises.
\<close>

definition url_at :: "string list \<Rightarrow> nat \<Rightarrow> error + string" where
  "url_at image_urls idx =
     (if idx < length image_urls then Inr (image_urls ! idx) else Inl IndexError)"

fun collect_sources :: "string list \<Rightarrow> (nat \<times> bytes option) list \<Rightarrow> image_source list \<times> nat
    \<Rightarrow> error + image_source list \<times> nat" where
  "collect_sources image_urls [] acc = Inr acc"
| "collect_sources image_urls ((idx, jpg_data) # results) (image_sources, success_count) =
     (case jpg_data of
        Some b \<Rightarrow>
          if b \<noteq> []
          then collect_sources image_urls results
                 (image_sources @ [Jpg_data b], success_count + 1)
          else (case url_at image_urls idx of
                  Inl e \<Rightarrow> Inl e
                | Inr u \<Rightarrow>
                    collect_sources image_urls results
                      (image_sources @ [Url_str u], success_count))
      | None \<Rightarrow>
          (case url_at image_urls idx of
             Inl e \<Rightarrow> Inl e
           | Inr u \<Rightarrow>
               collect_sources image_urls results
                 (image_sources @ [Url_str u], success_count)))"

text \<open>
  The block shared by the image branches of \<^verbatim>\<open>parse_video\<close>, \<^verbatim>\<open>parse_slides\<close>,
  \<^verbatim>\<open>parse_explore\<close> and \<^verbatim>\<open>parse_discovery\<close>: one task per URL with its index, the gather,
  the sort by index and the loop. It gives \<^verbatim>\<open>image_sources\<close> and \<^verbatim>\<open>success_count\<close>.
\<close>

definition convert_images :: "world \<Rightarrow> string list \<Rightarrow> error + image_source list \<times> nat" where
  "convert_images w image_urls =
     (let convert_tasks = map (\<lambda>(i, img_url). convert_webp_to_jpg w img_url i)
                              (enumerate 0 image_urls);
          results = gather (finish_time w) convert_tasks;
          sorted_results = sort_key fst results
      in collect_sources image_urls sorted_results ([], 0))"

subsection \<open>Douyin\<close>

definition and_then :: "error + 'a \<Rightarrow> ('a \<Rightarrow> error + 'b) \<Rightarrow> error + 'b" where
  "and_then r f = (case r of Inl e \<Rightarrow> Inl e | Inr x \<Rightarrow> f x)"

text \<open>
  The pattern \<^verbatim>\<open>window\._ROUTER_DATA\s*=\s*(.*?)</script>\<close> with \<^verbatim>\<open>re.DOTALL\<close>.
  \<open>match_router_data\<close> is a match that starts at the head of the text, giving group 1:
  the greedy \<^verbatim>\<open>\s*\<close> take all the whitespace (neither \<^verbatim>\<open>=\<close> nor \<^verbatim>\<open><\<close> is whitespace, so
  giving some back never helps), the lazy group ends at the first \<^verbatim>\<open></script>\<close>.
  \<open>search_router_data\<close> is \<^verbatim>\<open>pattern.search\<close>: the leftmost position with a match.
\<close>

definition match_router_data :: "string \<Rightarrow> string option" where
  "match_router_data s =
     (if starts_with ''window._ROUTER_DATA'' s then
        (case dropWhile is_space (drop (length ''window._ROUTER_DATA'') s) of
           [] \<Rightarrow> None
         | c # r \<Rightarrow>
             if c = CHR ''='' then text_before ''</script>'' (dropWhile is_space r)
             else None)
      else None)"

fun search_router_data :: "string \<Rightarrow> string option" where
  "search_router_data [] = None"
| "search_router_data (c # cs) =
     (case match_router_data (c # cs) of
        Some group1 \<Rightarrow> Some group1
      | None \<Rightarrow> search_router_data cs)"

definition cant_find_router_data :: string where
  "cant_find_router_data = ''can'' @ [CHR 0x27] @ ''t find _ROUTER_DATA in html''"

text \<open>
  The contents of \<^verbatim>\<open>parse_video\<close>: the images when there are any, else the video when
  its URL is true (neither \<^verbatim>\<open>None\<close> nor empty), else nothing.
\<close>

definition parse_video_contents :: "world \<Rightarrow> video_data \<Rightarrow> error + content list" where
  "parse_video_contents w vd =
     (if vd_image_urls vd \<noteq> [] then
        and_then (convert_images w (vd_image_urls vd))
          (\<lambda>(image_sources, success_count). Inr (create_image_contents image_sources))
      else
        (case vd_video_url vd of
           None \<Rightarrow> Inr []
         | Some video_url \<Rightarrow>
             if video_url \<noteq> [] then
               Inr [create_video_content (JStr video_url) (vd_cover_url vd)
                      (Some (case vd_video_duration vd of Some d \<Rightarrow> d | None \<Rightarrow> 0))]
             else Inr []))"

text \<open>
  A call returns the result or the exception it raises, with the events of the call in
  order. Only the page requests and the log lines of the fallback chains are events.
\<close>

definition parse_video :: "world \<Rightarrow> string \<Rightarrow> (error + parse_result) \<times> event list" where
  "parse_video w url =
     (case http_get w Ios_headers url of
        Transport_failure \<Rightarrow> Inl TransportError
      | Response status_code body \<Rightarrow>
          if status_code \<noteq> 200
          then Inl (ParseException (''status: '' @ str_int status_code))
          else
            (case search_router_data body of
               None \<Rightarrow> Inl (ParseException cant_find_router_data)
             | Some group1 \<Rightarrow>
                 if group1 = [] then Inl (ParseException cant_find_router_data)
                 else
                   and_then (decode_router_data w (strip group1)) (\<lambda>vd.
                   and_then (parse_video_contents w vd) (\<lambda>contents.
                   Inr (result (vd_desc vd) None
                          (create_author (vd_nickname vd) (vd_avatar_url vd))
                          (Some (vd_create_time vd)) contents)))),
      [Http_get Ios_headers url])"

definition slidesinfo_url :: string where
  "slidesinfo_url = ''https://www.iesdouyin.com/web/api/v2/aweme/slidesinfo/''"

definition parse_slides_contents :: "world \<Rightarrow> slides_data \<Rightarrow> error + content list" where
  "parse_slides_contents w sd =
     and_then
       (if sd_image_urls sd \<noteq> [] then
          and_then (convert_images w (sd_image_urls sd))
            (\<lambda>(image_sources, success_count). Inr (create_image_contents image_sources))
        else Inr [])
       (\<lambda>contents.
          if sd_dynamic_urls sd \<noteq> []
          then Inr (contents @ create_dynamic_contents (sd_dynamic_urls sd))
          else Inr contents)"

definition parse_slides :: "world \<Rightarrow> string \<Rightarrow> (error + parse_result) \<times> event list" where
  "parse_slides w video_id =
     (and_then (slides_get w video_id) (\<lambda>body.
      and_then (decode_slides_info w body) (\<lambda>aweme_details.
        (case aweme_details of
           [] \<Rightarrow> Inl IndexError
         | sd # _ \<Rightarrow>
             and_then (parse_slides_contents w sd) (\<lambda>contents.
             Inr (result (sd_desc sd) None
                    (create_author (sd_name sd) (sd_avatar_url sd))
                    (Some (sd_create_time sd)) contents))))),
      [Http_get Android_headers slidesinfo_url])"

definition build_iesdouyin_url :: "string \<Rightarrow> string \<Rightarrow> string" where
  "build_iesdouyin_url ty vid = ''https://www.iesdouyin.com/share/'' @ ty @ ''/'' @ vid"

definition build_m_douyin_url :: "string \<Rightarrow> string \<Rightarrow> string" where
  "build_m_douyin_url ty vid = ''https://m.douyin.com/share/'' @ ty @ ''/'' @ vid"

text \<open>The message of the exception raised after the loop, in UTF-8.\<close>

definition all_failed_message :: string where
  "all_failed_message =
     [CHR 0xE5, CHR 0x88, CHR 0x86, CHR 0xE4, CHR 0xBA, CHR 0xAB, CHR 0xE5, CHR 0xB7, CHR 0xB2,
      CHR 0xE5, CHR 0x88, CHR 0xA0, CHR 0xE9, CHR 0x99, CHR 0xA4, CHR 0xE6, CHR 0x88, CHR 0x96,
      CHR 0xE8, CHR 0xB5, CHR 0x84, CHR 0xE6, CHR 0xBA, CHR 0x90, CHR 0xE7, CHR 0x9B, CHR 0xB4,
      CHR 0xE9, CHR 0x93, CHR 0xBE, CHR 0xE6, CHR 0x8F, CHR 0x90, CHR 0xE5, CHR 0x8F, CHR 0x96,
      CHR 0xE5, CHR 0xA4, CHR 0xB1, CHR 0xE8, CHR 0xB4, CHR 0xA5] @ '', '' @
     [CHR 0xE8, CHR 0xAF, CHR 0xB7, CHR 0xE7, CHR 0xA8, CHR 0x8D, CHR 0xE5, CHR 0x90, CHR 0x8E,
      CHR 0xE5, CHR 0x86, CHR 0x8D, CHR 0xE8, CHR 0xAF, CHR 0x95]"

text \<open>
  The loop of \<^verbatim>\<open>_parse_douyin\<close> over the URLs still to try: a result returns, a
  \<open>ParseException\<close> is logged and the loop goes on, any other exception leaves the loop
  and the function; after the last URL the loop is left and the final exception raised.
\<close>

fun try_urls :: "world \<Rightarrow> string list \<Rightarrow> (error + parse_result) \<times> event list" where
  "try_urls w [] = (Inl (ParseException all_failed_message), [])"
| "try_urls w (url # urls) =
     (case parse_video w url of
        (Inr r, events) \<Rightarrow> (Inr r, events)
      | (Inl (ParseException e), events) \<Rightarrow>
          (case try_urls w urls of
             (r, later) \<Rightarrow>
               (r, events @ [Log_warning (''failed to parse '' @ url @ '', error: '' @ e)] @ later))
      | (Inl other, events) \<Rightarrow> (Inl other, events))"

definition parse_douyin :: "world \<Rightarrow> string \<Rightarrow> string \<Rightarrow> (error + parse_result) \<times> event list" where
  "parse_douyin w ty vid =
     (if ty = ''slides'' then parse_slides w vid
      else try_urls w [build_m_douyin_url ty vid, build_iesdouyin_url ty vid])"

subsection \<open>Xiaohongshu: the state blob\<close>

text \<open>
  The pattern \<^verbatim>\<open>window\.__INITIAL_STATE__=(.*?)</script>\<close>, without \<^verbatim>\<open>re.DOTALL\<close>: the
  group holds no line feed.
\<close>

definition match_initial_state :: "string \<Rightarrow> string option" where
  "match_initial_state s =
     (if starts_with ''window.__INITIAL_STATE__='' s
      then line_before ''</script>'' (drop (length ''window.__INITIAL_STATE__='') s)
      else None)"

fun search_initial_state :: "string \<Rightarrow> string option" where
  "search_initial_state [] = None"
| "search_initial_state (c # cs) =
     (case match_initial_state (c # cs) of
        Some group1 \<Rightarrow> Some group1
      | None \<Rightarrow> search_initial_state cs)"

text \<open>The message of \<^verbatim>\<open>_extract_initial_state_json\<close> when nothing matches, in UTF-8.\<close>

definition link_invalid_message :: string where
  "link_invalid_message =
     [CHR 0xE5, CHR 0xB0, CHR 0x8F, CHR 0xE7, CHR 0xBA, CHR 0xA2, CHR 0xE4, CHR 0xB9, CHR 0xA6,
      CHR 0xE5, CHR 0x88, CHR 0x86, CHR 0xE4, CHR 0xBA, CHR 0xAB, CHR 0xE9, CHR 0x93, CHR 0xBE,
      CHR 0xE6, CHR 0x8E, CHR 0xA5, CHR 0xE5, CHR 0xA4, CHR 0xB1, CHR 0xE6, CHR 0x95, CHR 0x88,
      CHR 0xE6, CHR 0x88, CHR 0x96, CHR 0xE5, CHR 0x86, CHR 0x85, CHR 0xE5, CHR 0xAE, CHR 0xB9,
      CHR 0xE5, CHR 0xB7, CHR 0xB2, CHR 0xE5, CHR 0x88, CHR 0xA0, CHR 0xE9, CHR 0x99, CHR 0xA4]"

definition extract_initial_state_json :: "world \<Rightarrow> string \<Rightarrow> error + json" where
  "extract_initial_state_json w html =
     (case search_initial_state html of
        None \<Rightarrow> Inl (ParseException link_invalid_message)
      | Some group1 \<Rightarrow>
          (case json_loads w (replace ''undefined'' ''null'' group1) of
             None \<Rightarrow> Inl DecodeError
           | Some json_obj \<Rightarrow> Inr json_obj))"

text \<open>\<^verbatim>\<open>obj.get(key, default)\<close>: only a dict has the method.\<close>

definition dict_get :: "json \<Rightarrow> string \<Rightarrow> json \<Rightarrow> error + json" where
  "dict_get obj key dflt =
     (case obj of
        JObj kvs \<Rightarrow> Inr (case map_of kvs key of Some v \<Rightarrow> v | None \<Rightarrow> dflt)
      | _ \<Rightarrow> Inl AttributeError)"

subsection \<open>Xiaohongshu: the schemas\<close>

text \<open>
  \<^verbatim>\<open>msgspec.convert\<close> of a decoded JSON value to a \<^verbatim>\<open>Struct\<close>: the value must be a dict;
  a field that is present is converted to its declared type, whether it has a default or
  not; a field that is absent takes its default, and raises when it has none; keys that
  name no field are ignored. \<^verbatim>\<open>str\<close> takes a string only, \<^verbatim>\<open>int\<close> an integer only (not a
  boolean), \<^verbatim>\<open>list[T]\<close> a list whose items convert to \<^verbatim>\<open>T\<close>, \<^verbatim>\<open>T | None\<close> also the null,
  \<^verbatim>\<open>dict[str, Any]\<close> any dict.
\<close>

definition convert_str :: "json \<Rightarrow> error + string" where
  "convert_str j = (case j of JStr s \<Rightarrow> Inr s | _ \<Rightarrow> Inl ValidationError)"

definition convert_int :: "json \<Rightarrow> error + int" where
  "convert_int j = (case j of JInt i \<Rightarrow> Inr i | _ \<Rightarrow> Inl ValidationError)"

definition convert_dict :: "json \<Rightarrow> error + (string \<times> json) list" where
  "convert_dict j = (case j of JObj kvs \<Rightarrow> Inr kvs | _ \<Rightarrow> Inl ValidationError)"

fun convert_items :: "(json \<Rightarrow> error + 'a) \<Rightarrow> json list \<Rightarrow> error + 'a list" where
  "convert_items conv [] = Inr []"
| "convert_items conv (j # js) =
     and_then (conv j) (\<lambda>x. and_then (convert_items conv js) (\<lambda>xs. Inr (x # xs)))"

definition convert_list :: "(json \<Rightarrow> error + 'a) \<Rightarrow> json \<Rightarrow> error + 'a list" where
  "convert_list conv j =
     (case j of JArr js \<Rightarrow> convert_items conv js | _ \<Rightarrow> Inl ValidationError)"

definition convert_optional :: "(json \<Rightarrow> error + 'a) \<Rightarrow> json \<Rightarrow> error + 'a option" where
  "convert_optional conv j =
     (case j of JNull \<Rightarrow> Inr None | _ \<Rightarrow> and_then (conv j) (\<lambda>x. Inr (Some x)))"

definition required_field :: "(string \<times> json) list \<Rightarrow> string \<Rightarrow> (json \<Rightarrow> error + 'a)
    \<Rightarrow> error + 'a" where
  "required_field kvs name conv =
     (case map_of kvs name of None \<Rightarrow> Inl ValidationError | Some j \<Rightarrow> conv j)"

definition optional_field :: "(string \<times> json) list \<Rightarrow> string \<Rightarrow> 'a \<Rightarrow> (json \<Rightarrow> error + 'a)
    \<Rightarrow> error + 'a" where
  "optional_field kvs name dflt conv =
     (case map_of kvs name of None \<Rightarrow> Inr dflt | Some j \<Rightarrow> conv j)"

text \<open>The module-level classes \<^verbatim>\<open>Stream\<close>, \<^verbatim>\<open>Media\<close> and \<^verbatim>\<open>Video\<close>.\<close>

record Stream =
  h264 :: "(string \<times> json) list list option"
  h265 :: "(string \<times> json) list list option"
  av1 :: "(string \<times> json) list list option"
  h266 :: "(string \<times> json) list list option"

record Media =
  stream :: Stream

record Video =
  media :: Media

definition convert_Stream :: "json \<Rightarrow> error + Stream" where
  "convert_Stream j =
     (case j of
        JObj kvs \<Rightarrow>
          and_then (optional_field kvs ''h264'' None
                      (convert_optional (convert_list convert_dict))) (\<lambda>a.
          and_then (optional_field kvs ''h265'' None
                      (convert_optional (convert_list convert_dict))) (\<lambda>b.
          and_then (optional_field kvs ''av1'' None
                      (convert_optional (convert_list convert_dict))) (\<lambda>c.
          and_then (optional_field kvs ''h266'' None
                      (convert_optional (convert_list convert_dict))) (\<lambda>d.
          Inr \<lparr>h264 = a, h265 = b, av1 = c, h266 = d\<rparr>))))
      | _ \<Rightarrow> Inl ValidationError)"

definition convert_Media :: "json \<Rightarrow> error + Media" where
  "convert_Media j =
     (case j of
        JObj kvs \<Rightarrow>
          and_then (required_field kvs ''stream'' convert_Stream) (\<lambda>s. Inr \<lparr>stream = s\<rparr>)
      | _ \<Rightarrow> Inl ValidationError)"

definition convert_Video :: "json \<Rightarrow> error + Video" where
  "convert_Video j =
     (case j of
        JObj kvs \<Rightarrow>
          and_then (required_field kvs ''media'' convert_Media) (\<lambda>m. Inr \<lparr>media = m\<rparr>)
      | _ \<Rightarrow> Inl ValidationError)"

text \<open>
  \<^verbatim>\<open>xs[0]["masterUrl"]\<close> for a stream list that is true: the value under the key in the
  first dict. The value has type \<^verbatim>\<open>Any\<close>; the null is Python's \<^verbatim>\<open>None\<close>.
\<close>

definition master_url :: "(string \<times> json) list list option \<Rightarrow> error + json" where
  "master_url xs =
     (case xs of
        Some (d # _) \<Rightarrow>
          (case map_of d ''masterUrl'' of None \<Rightarrow> Inl KeyError | Some v \<Rightarrow> Inr v)
      | _ \<Rightarrow> Inl IndexError)"

definition nonempty :: "'a list option \<Rightarrow> bool" where
  "nonempty xs = (case xs of Some (_ # _) \<Rightarrow> True | _ \<Rightarrow> False)"

text \<open>The property \<^verbatim>\<open>Video.video_url\<close>; \<open>JNull\<close> is the \<^verbatim>\<open>None\<close> it returns.\<close>

definition Video_video_url :: "Video \<Rightarrow> error + json" where
  "Video_video_url v =
     (let s = stream (media v) in
      if nonempty (h265 s) then master_url (h265 s)
      else if nonempty (h264 s) then master_url (h264 s)
      else if nonempty (av1 s) then master_url (av1 s)
      else if nonempty (h266 s) then master_url (h266 s)
      else Inr JNull)"

text \<open>The classes local to \<^verbatim>\<open>parse_explore\<close>: \<^verbatim>\<open>Image\<close>, \<^verbatim>\<open>User\<close> and \<^verbatim>\<open>NoteDetail\<close>.\<close>

record ExploreImage =
  urlDefault :: string

record ExploreUser =
  nickname :: string
  avatar :: string

record NoteDetail =
  nd_type :: string
  nd_title :: string
  nd_desc :: string
  nd_user :: ExploreUser
  nd_imageList :: "ExploreImage list"
  nd_video :: "Video option"

definition convert_ExploreImage :: "json \<Rightarrow> error + ExploreImage" where
  "convert_ExploreImage j =
     (case j of
        JObj kvs \<Rightarrow>
          and_then (required_field kvs ''urlDefault'' convert_str) (\<lambda>u.
          Inr \<lparr>urlDefault = u\<rparr>)
      | _ \<Rightarrow> Inl ValidationError)"

definition convert_ExploreUser :: "json \<Rightarrow> error + ExploreUser" where
  "convert_ExploreUser j =
     (case j of
        JObj kvs \<Rightarrow>
          and_then (required_field kvs ''nickname'' convert_str) (\<lambda>n.
          and_then (required_field kvs ''avatar'' convert_str) (\<lambda>a.
          Inr \<lparr>nickname = n, avatar = a\<rparr>))
      | _ \<Rightarrow> Inl ValidationError)"

definition convert_NoteDetail :: "json \<Rightarrow> error + NoteDetail" where
  "convert_NoteDetail j =
     (case j of
        JObj kvs \<Rightarrow>
          and_then (required_field kvs ''type'' convert_str) (\<lambda>ty.
          and_then (required_field kvs ''title'' convert_str) (\<lambda>title.
          and_then (required_field kvs ''desc'' convert_str) (\<lambda>desc.
          and_then (required_field kvs ''user'' convert_ExploreUser) (\<lambda>user.
          and_then (optional_field kvs ''imageList'' []
                      (convert_list convert_ExploreImage)) (\<lambda>images.
          and_then (optional_field kvs ''video'' None
                      (convert_optional convert_Video)) (\<lambda>video.
          Inr \<lparr>nd_type = ty, nd_title = title, nd_desc = desc, nd_user = user,
               nd_imageList = images, nd_video = video\<rparr>))))))
      | _ \<Rightarrow> Inl ValidationError)"

definition NoteDetail_image_urls :: "NoteDetail \<Rightarrow> string list" where
  "NoteDetail_image_urls d = map urlDefault (nd_imageList d)"

text \<open>A struct instance is always true, so \<^verbatim>\<open>not self.video\<close> holds for \<^verbatim>\<open>None\<close> only.\<close>

definition NoteDetail_video_url :: "NoteDetail \<Rightarrow> error + json" where
  "NoteDetail_video_url d =
     (case nd_video d of
        None \<Rightarrow> Inr JNull
      | Some v \<Rightarrow> if nd_type d \<noteq> ''video'' then Inr JNull else Video_video_url v)"

text \<open>
  The classes local to \<^verbatim>\<open>parse_discovery\<close>: \<^verbatim>\<open>Image\<close>, \<^verbatim>\<open>User\<close>, \<^verbatim>\<open>NoteData\<close> and
  \<^verbatim>\<open>NormalNotePreloadData\<close>.
\<close>

record DiscoveryImage =
  url :: string
  urlSizeLarge :: "string option"

record DiscoveryUser =
  nickName :: string
  user_avatar :: string

record NoteData =
  note_type :: string
  note_title :: string
  note_desc :: string
  note_user :: DiscoveryUser
  note_time :: int
  note_lastUpdateTime :: int
  note_imageList :: "DiscoveryImage list"
  note_video :: "Video option"

record NormalNotePreloadData =
  preload_title :: string
  preload_desc :: string
  preload_imagesList :: "DiscoveryImage list"

definition convert_DiscoveryImage :: "json \<Rightarrow> error + DiscoveryImage" where
  "convert_DiscoveryImage j =
     (case j of
        JObj kvs \<Rightarrow>
          and_then (required_field kvs ''url'' convert_str) (\<lambda>u.
          and_then (optional_field kvs ''urlSizeLarge'' None
                      (convert_optional convert_str)) (\<lambda>l.
          Inr \<lparr>url = u, urlSizeLarge = l\<rparr>))
      | _ \<Rightarrow> Inl ValidationError)"

definition convert_DiscoveryUser :: "json \<Rightarrow> error + DiscoveryUser" where
  "convert_DiscoveryUser j =
     (case j of
        JObj kvs \<Rightarrow>
          and_then (required_field kvs ''nickName'' convert_str) (\<lambda>n.
          and_then (required_field kvs ''avatar'' convert_str) (\<lambda>a.
          Inr \<lparr>nickName = n, user_avatar = a\<rparr>))
      | _ \<Rightarrow> Inl ValidationError)"

definition convert_NoteData :: "json \<Rightarrow> error + NoteData" where
  "convert_NoteData j =
     (case j of
        JObj kvs \<Rightarrow>
          and_then (required_field kvs ''type'' convert_str) (\<lambda>ty.
          and_then (required_field kvs ''title'' convert_str) (\<lambda>title.
          and_then (required_field kvs ''desc'' convert_str) (\<lambda>desc.
          and_then (required_field kvs ''user'' convert_DiscoveryUser) (\<lambda>user.
          and_then (required_field kvs ''time'' convert_int) (\<lambda>time.
          and_then (required_field kvs ''lastUpdateTime'' convert_int) (\<lambda>updated.
          and_then (optional_field kvs ''imageList'' []
                      (convert_list convert_DiscoveryImage)) (\<lambda>images.
          and_then (optional_field kvs ''video'' None
                      (convert_optional convert_Video)) (\<lambda>video.
          Inr \<lparr>note_type = ty, note_title = title, note_desc = desc, note_user = user,
               note_time = time, note_lastUpdateTime = updated,
               note_imageList = images, note_video = video\<rparr>))))))))
      | _ \<Rightarrow> Inl ValidationError)"

definition convert_NormalNotePreloadData :: "json \<Rightarrow> error + NormalNotePreloadData" where
  "convert_NormalNotePreloadData j =
     (case j of
        JObj kvs \<Rightarrow>
          and_then (required_field kvs ''title'' convert_str) (\<lambda>title.
          and_then (required_field kvs ''desc'' convert_str) (\<lambda>desc.
          and_then (optional_field kvs ''imagesList'' []
                      (convert_list convert_DiscoveryImage)) (\<lambda>images.
          Inr \<lparr>preload_title = title, preload_desc = desc, preload_imagesList = images\<rparr>)))
      | _ \<Rightarrow> Inl ValidationError)"

definition NoteData_image_urls :: "NoteData \<Rightarrow> string list" where
  "NoteData_image_urls d = map url (note_imageList d)"

definition NoteData_video_url :: "NoteData \<Rightarrow> error + json" where
  "NoteData_video_url d =
     (case note_video d of
        None \<Rightarrow> Inr JNull
      | Some v \<Rightarrow> if note_type d \<noteq> ''video'' then Inr JNull else Video_video_url v)"

text \<open>\<^verbatim>\<open>item.urlSizeLarge or item.url\<close>: the large URL when it is neither \<^verbatim>\<open>None\<close> nor empty.\<close>

definition large_or_url :: "DiscoveryImage \<Rightarrow> string" where
  "large_or_url item =
     (case urlSizeLarge item of
        None \<Rightarrow> url item
      | Some l \<Rightarrow> if l \<noteq> [] then l else url item)"

definition NormalNotePreloadData_image_urls :: "NormalNotePreloadData \<Rightarrow> string list" where
  "NormalNotePreloadData_image_urls d = map large_or_url (preload_imagesList d)"

subsection \<open>Xiaohongshu: the parse paths\<close>

definition cant_find_note_detail :: string where
  "cant_find_note_detail = ''can'' @ [CHR 0x27] @ ''t find note detail in json_obj''"

definition cant_find_noteData :: string where
  "cant_find_noteData = ''can'' @ [CHR 0x27] @ ''t find noteData in json_obj''"

definition cant_find_noteData_data :: string where
  "cant_find_noteData_data = ''can'' @ [CHR 0x27] @ ''t find noteData in noteData.data''"

text \<open>
  The contents of \<^verbatim>\<open>parse_explore\<close>: the video when its URL is true, with the first image
  as cover when there is one; else the images when there are any; else nothing.
\<close>

definition parse_explore_contents :: "world \<Rightarrow> NoteDetail \<Rightarrow> error + content list" where
  "parse_explore_contents w note_detail =
     and_then (NoteDetail_video_url note_detail) (\<lambda>video_url.
       if truthy video_url then
         Inr [create_video_content video_url
                (case NoteDetail_image_urls note_detail of
                   [] \<Rightarrow> None
                 | u # _ \<Rightarrow> Some u)
                None]
       else if NoteDetail_image_urls note_detail \<noteq> [] then
         and_then (convert_images w (NoteDetail_image_urls note_detail))
           (\<lambda>(image_sources, success_count). Inr (create_image_contents image_sources))
       else Inr [])"

definition parse_explore :: "world \<Rightarrow> string \<Rightarrow> string \<Rightarrow> (error + parse_result) \<times> event list"
  where
  "parse_explore w page_url xhs_id =
     (case http_get w Default_headers page_url of
        Transport_failure \<Rightarrow> Inl TransportError
      | Response status_code html \<Rightarrow>
          and_then (extract_initial_state_json w html) (\<lambda>json_obj.
          and_then (dict_get json_obj ''note'' (JObj [])) (\<lambda>a.
          and_then (dict_get a ''noteDetailMap'' (JObj [])) (\<lambda>b.
          and_then (dict_get b xhs_id (JObj [])) (\<lambda>c.
          and_then (dict_get c ''note'' (JObj [])) (\<lambda>note_data.
            if \<not> truthy note_data then Inl (ParseException cant_find_note_detail)
            else
              and_then (convert_NoteDetail note_data) (\<lambda>note_detail.
              and_then (parse_explore_contents w note_detail) (\<lambda>contents.
              Inr (result (nd_title note_detail) (Some (nd_desc note_detail))
                     (create_author (nickname (nd_user note_detail))
                        (avatar (nd_user note_detail)))
                     None contents)))))))),
      [Http_get Default_headers page_url])"

text \<open>
  The contents of \<^verbatim>\<open>parse_discovery\<close>: the video when its URL is true, its cover the first
  URL of the preload data when that dict is true and of the note's own images otherwise,
  \<^verbatim>\<open>img_urls[0]\<close> raising on an empty list; else the images when there are any.
\<close>

definition parse_discovery_contents :: "world \<Rightarrow> json \<Rightarrow> NoteData \<Rightarrow> error + content list" where
  "parse_discovery_contents w preload_data note_data =
     and_then (NoteData_video_url note_data) (\<lambda>video_url.
       if truthy video_url then
         and_then
           (if truthy preload_data
            then and_then (convert_NormalNotePreloadData preload_data)
                   (\<lambda>p. Inr (NormalNotePreloadData_image_urls p))
            else Inr (NoteData_image_urls note_data))
           (\<lambda>img_urls.
              case img_urls of
                [] \<Rightarrow> Inl IndexError
              | u # _ \<Rightarrow> Inr [create_video_content video_url (Some u) None])
       else if NoteData_image_urls note_data \<noteq> [] then
         and_then (convert_images w (NoteData_image_urls note_data))
           (\<lambda>(image_sources, success_count). Inr (create_image_contents image_sources))
       else Inr [])"

definition parse_discovery :: "world \<Rightarrow> string \<Rightarrow> (error + parse_result) \<times> event list" where
  "parse_discovery w page_url =
     (case http_get w Ios_headers page_url of
        Transport_failure \<Rightarrow> Inl TransportError
      | Response status_code html \<Rightarrow>
          and_then (extract_initial_state_json w html) (\<lambda>json_obj.
          and_then (dict_get json_obj ''noteData'' JNull) (\<lambda>outer.
            if \<not> truthy outer then Inl (ParseException cant_find_noteData)
            else
              and_then (dict_get outer ''normalNotePreloadData'' (JObj [])) (\<lambda>preload_data.
              and_then (dict_get outer ''data'' (JObj [])) (\<lambda>d.
              and_then (dict_get d ''noteData'' (JObj [])) (\<lambda>inner.
                if \<not> truthy inner then Inl (ParseException cant_find_noteData_data)
                else
                  and_then (convert_NoteData inner) (\<lambda>note_data.
                  and_then (parse_discovery_contents w preload_data note_data) (\<lambda>contents.
                  Inr (result (note_title note_data) (Some (note_desc note_data))
                         (create_author (nickName (note_user note_data))
                            (user_avatar (note_user note_data)))
                         (Some (note_time note_data div 1000)) contents)))))))),
      [Http_get Ios_headers page_url])"

text \<open>
  \<^verbatim>\<open>_parse_discovery\<close>, called with the matched route and its \<^verbatim>\<open>xhs_id\<close> group: a
  \<open>ParseException\<close> of \<^verbatim>\<open>parse_explore\<close> is logged and \<^verbatim>\<open>parse_discovery\<close> is called.
\<close>

definition underscore_parse_discovery :: "world \<Rightarrow> string \<Rightarrow> string
    \<Rightarrow> (error + parse_result) \<times> event list" where
  "underscore_parse_discovery w route xhs_id =
     (let explore_route = replace_first ''discovery/item'' ''explore'' route in
      case parse_explore w (''https://www.xiaohongshu.com/'' @ explore_route) xhs_id of
        (Inl (ParseException e), events) \<Rightarrow>
          (case parse_discovery w (''https://www.xiaohongshu.com/'' @ route) of
             (r, later) \<Rightarrow>
               (r, events
                   @ [Log_debug ''parse_explore failed, fallback to parse_discovery'']
                   @ later))
      | (r, events) \<Rightarrow> (r, events))"

subsection \<open>Example worlds\<close>

text \<open>
  A world in which every request fails, and one in which the image \<^verbatim>\<open>u1\<close> cannot be
  fetched, every other image converts, and the conversion tasks finish last to first.
\<close>

definition failing_world :: world where
  "failing_world =
     \<lparr>http_get = (\<lambda>p u. Transport_failure),
      slides_get = (\<lambda>v. Inl TransportError),
      image_get = (\<lambda>u i. None),
      to_jpeg = (\<lambda>b. None),
      finish_time = (\<lambda>i. i),
      decode_router_data = (\<lambda>s. Inl DecodeError),
      decode_slides_info = (\<lambda>s. Inl DecodeError),
      json_loads = (\<lambda>s. None)\<rparr>"

definition images_world :: world where
  "images_world =
     failing_world
       \<lparr>image_get := (\<lambda>u i. if u = ''u1'' then None else Some u),
        to_jpeg := (\<lambda>b. Some (''jpg:'' @ b)),
        finish_time := (\<lambda>i. 2 - i)\<rparr>"

subsection \<open>Requests of a call\<close>

text \<open>The URLs requested by a call, in order: one per attempt of a parse path.\<close>

fun requested :: "event list \<Rightarrow> string list" where
  "requested [] = []"
| "requested (Http_get p u # events) = u # requested events"
| "requested (Log_warning m # events) = requested events"
| "requested (Log_debug m # events) = requested events"

subsection \<open>Example pages of Douyin\<close>

text \<open>
  Three decoded posts: a clip with a video only, an album with three images and a video
  as well, and a post with neither.
\<close>

definition clip_data :: video_data where
  "clip_data =
     \<lparr>vd_image_urls = [], vd_video_url = Some ''https://v/clip.mp4'',
      vd_cover_url = Some ''https://v/cover.jpg'', vd_video_duration = Some 15000,
      vd_nickname = ''nick'', vd_avatar_url = ''https://v/a.jpg'',
      vd_desc = ''a clip'', vd_create_time = 1700000000\<rparr>"

definition album_data :: video_data where
  "album_data =
     clip_data\<lparr>vd_image_urls := [''u0'', ''u1'', ''u2''], vd_desc := ''an album''\<rparr>"

definition bare_data :: video_data where
  "bare_data = clip_data\<lparr>vd_video_url := None, vd_cover_url := None,
                          vd_video_duration := None, vd_desc := ''bare''\<rparr>"

text \<open>
  The world of \<open>images_world\<close> in which the m.douyin page of the video \<^verbatim>\<open>1\<close> answers
  \<open>first\<close>, its iesdouyin page answers \<open>second\<close>, and the decoder knows three payloads.
\<close>

definition douyin_pages :: "http_outcome \<Rightarrow> http_outcome \<Rightarrow> world" where
  "douyin_pages first second =
     images_world
       \<lparr>http_get := (\<lambda>p u.
          if u = ''https://m.douyin.com/share/video/1'' then first
          else if u = ''https://www.iesdouyin.com/share/video/1'' then second
          else Transport_failure),
        decode_router_data := (\<lambda>s.
          if s = ''{\"clip\":1}'' then Inr clip_data
          else if s = ''{\"album\":1}'' then Inr album_data
          else if s = ''{\"bare\":1}'' then Inr bare_data
          else Inl DecodeError)\<rparr>"

definition clip_page :: http_outcome where
  "clip_page = Response 200
     ''<script>window._ROUTER_DATA = {\"clip\":1}</script>''"

definition album_page :: http_outcome where
  "album_page = Response 200
     ''<script>window._ROUTER_DATA = {\"album\":1}</script>''"

definition bare_page :: http_outcome where
  "bare_page = Response 200
     ''<script>window._ROUTER_DATA = {\"bare\":1}</script>''"

definition broken_page :: http_outcome where
  "broken_page = Response 200
     ''<script>window._ROUTER_DATA = {\"clip\":</script>''"

definition forbidden_page :: http_outcome where
  "forbidden_page = Response 403 ''Forbidden''"

definition plain_page :: http_outcome where
  "plain_page = Response 200 ''<html><body>gone</body></html>''"

subsection \<open>Example pages of Xiaohongshu\<close>

text \<open>
  A video note with a cover image and two codecs, the state of the explore page that holds
  it under the id \<^verbatim>\<open>abc\<close>, and the text of that state. In \<open>xhs_world\<close> the explore page of
  the note answers with the text between the marker and the end of the script.
\<close>

definition video_note :: json where
  "video_note =
     JObj [(''type'', JStr ''video''), (''title'', JStr ''t''), (''desc'', JStr ''d''),
           (''user'', JObj [(''nickname'', JStr ''n''), (''avatar'', JStr ''a.jpg'')]),
           (''imageList'', JArr [JObj [(''urlDefault'', JStr ''c.jpg'')]]),
           (''video'', JObj [(''media'', JObj [(''stream'',
              JObj [(''h264'', JArr [JObj [(''masterUrl'', JStr ''w.mp4'')]]),
                    (''h265'', JArr [JObj [(''masterUrl'', JStr ''v.mp4'')]])])])])]"

definition explore_state :: json where
  "explore_state =
     JObj [(''note'', JObj [(''noteDetailMap'', JObj [(''abc'', JObj [(''note'', video_note)])])])]"

definition explore_payload :: string where
  "explore_payload =
     ''{\"note\":{\"noteDetailMap\":{\"abc\":{\"note\":{''
     @ ''\"type\":\"video\",\"title\":\"t\",\"desc\":\"d\",''
     @ ''\"user\":{\"nickname\":\"n\",\"avatar\":\"a.jpg\"},''
     @ ''\"imageList\":[{\"urlDefault\":\"c.jpg\"}],''
     @ ''\"video\":{\"media\":{\"stream\":{''
     @ ''\"h264\":[{\"masterUrl\":\"w.mp4\"}],\"h265\":[{\"masterUrl\":\"v.mp4\"}]''
     @ ''}}}}}}}}''"

definition explore_html :: string where
  "explore_html = ''<script>window.__INITIAL_STATE__='' @ explore_payload @ ''</script>''"

definition xhs_world :: world where
  "xhs_world =
     images_world
       \<lparr>http_get := (\<lambda>p u.
          if p = Default_headers \<and> u = ''https://www.xiaohongshu.com/explore/abc?x=1''
          then Response 200 explore_html
          else Response 404 ''''),
        json_loads := (\<lambda>s. if s = explore_payload then Some explore_state else None)\<rparr>"

text \<open>What the clip page and the explore page of the video note parse to.\<close>

definition clip_result :: parse_result where
  "clip_result =
     \<lparr>res_title = ''a clip'', res_text = None,
      res_author = \<lparr>author_name = ''nick'', author_avatar = ''https://v/a.jpg''\<rparr>,
      res_timestamp = Some 1700000000,
      res_contents = [VideoContent (JStr ''https://v/clip.mp4'')
                        (Some ''https://v/cover.jpg'') (Some 15000)]\<rparr>"

definition video_note_result :: parse_result where
  "video_note_result =
     \<lparr>res_title = ''t'', res_text = Some ''d'',
      res_author = \<lparr>author_name = ''n'', author_avatar = ''a.jpg''\<rparr>,
      res_timestamp = None,
      res_contents = [VideoContent (JStr ''v.mp4'') (Some ''c.jpg'') None]\<rparr>"

subsection \<open>The image sequence and the codec preference, as the spec words them\<close>

text \<open>
  The normalised image sequence of a list of URLs: one image content per URL, in the order
  of the URLs, made from the converted bytes when the conversion task of that URL and
  index gave bytes that are true, and from the URL itself otherwise.
\<close>

definition converted_image :: "world \<Rightarrow> string \<Rightarrow> nat \<Rightarrow> content" where
  "converted_image w u i =
     (case snd (convert_webp_to_jpg w u i) of
        None \<Rightarrow> ImageContent (Download_img u)
      | Some jpg \<Rightarrow>
          if jpg \<noteq> [] then ImageContent (Create_jpg_task jpg)
          else ImageContent (Download_img u))"

definition images_in_order :: "world \<Rightarrow> string list \<Rightarrow> content list" where
  "images_in_order w urls = map (\<lambda>(i, u). converted_image w u i) (enumerate 0 urls)"

text \<open>
  The stream lists in the order of preference h265, h264, av1, h266, an absent list
  counting as empty.
\<close>

definition preferred_streams :: "Stream \<Rightarrow> (string \<times> json) list list list" where
  "preferred_streams s =
     map (\<lambda>xs. case xs of None \<Rightarrow> [] | Some l \<Rightarrow> l) [h265 s, h264 s, av1 s, h266 s]"

subsection \<open>Example notes and posts\<close>

text \<open>
  The video note as \<^verbatim>\<open>parse_explore\<close> and as \<^verbatim>\<open>parse_discovery\<close> decode it, preload data
  with a large cover, and a slides post with two images and one live photo.
\<close>

definition two_codecs :: Video where
  "two_codecs =
     \<lparr>media = \<lparr>stream =
        \<lparr>h264 = Some [[(''masterUrl'', JStr ''w.mp4'')]],
         h265 = Some [[(''masterUrl'', JStr ''v.mp4'')]],
         av1 = None, h266 = None\<rparr>\<rparr>\<rparr>"

definition video_detail :: NoteDetail where
  "video_detail =
     \<lparr>nd_type = ''video'', nd_title = ''t'', nd_desc = ''d'',
      nd_user = \<lparr>nickname = ''n'', avatar = ''a.jpg''\<rparr>,
      nd_imageList = [\<lparr>urlDefault = ''c.jpg''\<rparr>],
      nd_video = Some two_codecs\<rparr>"

definition video_note_data :: NoteData where
  "video_note_data =
     \<lparr>note_type = ''video'', note_title = ''t'', note_desc = ''d'',
      note_user = \<lparr>nickName = ''n'', user_avatar = ''a.jpg''\<rparr>,
      note_time = 1700000000999, note_lastUpdateTime = 1700000001000,
      note_imageList = [\<lparr>url = ''c.jpg'', urlSizeLarge = None\<rparr>],
      note_video = Some two_codecs\<rparr>"

definition image_note_data :: NoteData where
  "image_note_data =
     video_note_data
       \<lparr>note_type := ''normal'', note_video := None,
        note_imageList := [\<lparr>url = ''u0'', urlSizeLarge = None\<rparr>,
                           \<lparr>url = ''u1'', urlSizeLarge = None\<rparr>]\<rparr>"

definition preload_example :: json where
  "preload_example =
     JObj [(''title'', JStr ''t''), (''desc'', JStr ''d''),
           (''imagesList'', JArr [JObj [(''url'', JStr ''small.jpg''),
                                        (''urlSizeLarge'', JStr ''large.jpg'')]])]"

definition slides_example :: slides_data where
  "slides_example =
     \<lparr>sd_image_urls = [''u0'', ''u1''], sd_dynamic_urls = [''live.mp4''],
      sd_name = ''nick'', sd_avatar_url = ''https://v/a.jpg'',
      sd_desc = ''slides'', sd_create_time = 1700000000\<rparr>"

text \<open>A note with neither image nor video.\<close>

definition bare_detail :: NoteDetail where
  "bare_detail = video_detail\<lparr>nd_type := ''normal'', nd_imageList := [], nd_video := None\<rparr>"

definition bare_result :: parse_result where
  "bare_result =
     \<lparr>res_title = ''bare'', res_text = None,
      res_author = \<lparr>author_name = ''nick'', author_avatar = ''https://v/a.jpg''\<rparr>,
      res_timestamp = Some 1700000000, res_contents = []\<rparr>"

subsection \<open>Example payloads of a note\<close>






subsection \<open>The JSON decoder of the standard library\<close>





text \<open>
  The text after an opening quote, split at the closing quote: the first quote that no
  backslash escapes. A backslash takes the character after it along.
\<close>

fun split_literal :: "string \<Rightarrow> (string \<times> string) option" where
  "split_literal [] = None"
| "split_literal [c] = (if c = CHR 0x22 then Some ([], []) else None)"
| "split_literal (c # e # cs) =
     (if c = CHR 0x22 then Some ([], e # cs)
      else if c = CHR 0x5C then map_option (apfst (\<lambda>r. c # e # r)) (split_literal cs)
      else map_option (apfst (Cons c)) (split_literal (e # cs)))"




























section \<open>Properties\<close>

subsection \<open>The image conversion stage keeps the order of its input\<close>

lemma sort_key_fst_index:
  assumes "set xs = (\<lambda>k. (k, f k)) ` {0..<n}" "length xs = n"
  shows "sort_key fst xs = map (\<lambda>k. (k, f k)) [0..<n]"
proof -
  let ?s = "sort_key fst xs"
  have set_fst: "set (map fst ?s) = {0..<n}"
    using assms(1) by (auto simp: image_image)
  have "card (set (map fst ?s)) = length (map fst ?s)"
    using set_fst assms(2) by simp
  then have dist: "distinct (map fst ?s)" by (rule card_distinct)
  have fsts: "map fst ?s = [0..<n]"
    by (rule sorted_distinct_set_unique) (use dist set_fst in simp_all)
  have "\<forall>e \<in> set ?s. e = (fst e, f (fst e))"
    using assms(1) by auto
  then have "map (\<lambda>e. (fst e, f (fst e))) ?s = ?s"
    by (intro map_idI) simp
  then have "?s = map (\<lambda>k. (k, f k)) (map fst ?s)"
    by (simp add: comp_def)
  then show ?thesis using fsts by simp
qed

text \<open>Whatever the finishing times, the gather returns the results in the order of its tasks.\<close>

lemma gather_returns_tasks: "gather finish tasks = tasks"
proof -
  let ?n = "length tasks"
  let ?done = "map (\<lambda>k. (k, tasks ! k)) (completion_order finish ?n)"
  have "set ?done = (\<lambda>k. (k, tasks ! k)) ` {0..<?n}"
    by (simp add: completion_order_def)
  moreover have "length ?done = ?n"
    by (simp add: completion_order_def)
  ultimately have "sort_key fst ?done = map (\<lambda>k. (k, tasks ! k)) [0..<?n]"
    by (rule sort_key_fst_index)
  then have "gather finish tasks = map (\<lambda>k. tasks ! k) [0..<?n]"
    by (simp add: gather_def comp_def)
  then show ?thesis by (simp add: map_nth)
qed

lemma convert_tasks_upt:
  "map (\<lambda>(i, img_url). convert_webp_to_jpg w img_url i) (enumerate 0 image_urls)
     = map (\<lambda>i. convert_webp_to_jpg w (image_urls ! i) i) [0..<length image_urls]"
  by (rule nth_equalityI) (simp_all add: nth_enumerate_eq)

lemma fst_convert_webp_to_jpg: "fst (convert_webp_to_jpg w u i) = i"
  by (simp add: convert_webp_to_jpg_def split: option.splits)

text \<open>The source the loop picks for one result.\<close>

lemma collect_sources_upt:
  assumes "n \<le> length image_urls"
  shows "collect_sources image_urls (map (\<lambda>i. (i, f i)) [k..<n]) (acc, c)
     = Inr (acc @ map (\<lambda>i. case f i of
                              Some b \<Rightarrow> if b \<noteq> [] then Jpg_data b else Url_str (image_urls ! i)
                            | None \<Rightarrow> Url_str (image_urls ! i)) [k..<n],
            c + length (filter (\<lambda>i. f i \<noteq> None \<and> f i \<noteq> Some []) [k..<n]))"
  using assms
proof (induction "n - k" arbitrary: k acc c)
  case 0
  then show ?case by simp
next
  case (Suc d)
  then have kn: "k < n" and d: "d = n - Suc k" by simp_all
  have step: "[k..<n] = k # [Suc k..<n]" using kn by (simp add: upt_conv_Cons)
  show ?case
    using Suc.hyps(1)[OF d Suc.prems] kn Suc.prems
    by (cases "f k") (auto simp: step url_at_def)
qed

lemma convert_images_general:
  "convert_images w image_urls =
     Inr (map (\<lambda>i. case snd (convert_webp_to_jpg w (image_urls ! i) i) of
                      Some b \<Rightarrow> if b \<noteq> [] then Jpg_data b else Url_str (image_urls ! i)
                    | None \<Rightarrow> Url_str (image_urls ! i)) [0..<length image_urls],
          length (filter (\<lambda>i. snd (convert_webp_to_jpg w (image_urls ! i) i) \<noteq> None
                             \<and> snd (convert_webp_to_jpg w (image_urls ! i) i) \<noteq> Some [])
                    [0..<length image_urls]))"
proof -
  let ?n = "length image_urls"
  let ?f = "\<lambda>i. snd (convert_webp_to_jpg w (image_urls ! i) i)"
  have tasks: "map (\<lambda>(i, img_url). convert_webp_to_jpg w img_url i) (enumerate 0 image_urls)
      = map (\<lambda>i. (i, ?f i)) [0..<?n]"
    unfolding convert_tasks_upt
    by (rule map_cong [OF refl]) (metis fst_convert_webp_to_jpg prod.collapse)
  have sorted_tasks: "sort_key fst (map (\<lambda>i. (i, ?f i)) [0..<?n]) = map (\<lambda>i. (i, ?f i)) [0..<?n]"
    by (rule sort_key_fst_index) simp_all
  have "convert_images w image_urls =
      collect_sources image_urls (map (\<lambda>i. (i, ?f i)) [0..<?n]) ([], 0)"
    unfolding convert_images_def Let_def gather_returns_tasks tasks
    by (simp add: sorted_tasks)
  then show ?thesis
    using collect_sources_upt[OF order_refl, of image_urls ?f 0 "[]" 0] by simp
qed

lemma convert_images_value:
  assumes "\<forall>body. to_jpeg w body \<noteq> Some []"
  shows "convert_images w image_urls =
       Inr (map (\<lambda>i. case snd (convert_webp_to_jpg w (image_urls ! i) i) of
                        Some b \<Rightarrow> Jpg_data b
                      | None \<Rightarrow> Url_str (image_urls ! i)) [0..<length image_urls],
            length (filter (\<lambda>i. snd (convert_webp_to_jpg w (image_urls ! i) i) \<noteq> None)
                      [0..<length image_urls]))"
proof -
  have nonempty: "snd (convert_webp_to_jpg w u i) \<noteq> Some []" for u i
    using assms by (auto simp: convert_webp_to_jpg_def split: option.splits)
  show ?thesis
    unfolding convert_images_general
    by (auto simp: nonempty split: option.splits intro!: filter_cong)
qed

lemma convert_webp_to_jpg_finish_time [simp]:
  "convert_webp_to_jpg (w\<lparr>finish_time := finish\<rparr>) u i = convert_webp_to_jpg w u i"
  by (simp add: convert_webp_to_jpg_def split: option.splits)

text \<open>
  C1. For every list of image URLs and every world in which the image library never
  writes an empty JPEG, the conversion stage returns; \<^verbatim>\<open>image_sources\<close> has the length of
  the input; element \<open>i\<close> is the converted bytes when the conversion of URL \<open>i\<close> succeeded
  and the original URL \<open>image_urls ! i\<close> when it failed; \<^verbatim>\<open>success_count\<close> counts the
  conversions that succeeded; and the outcome is the same for every assignment of
  finishing times to the tasks.
\<close>

theorem convert_images_order_preserved:
  assumes "\<forall>body. to_jpeg w body \<noteq> Some []"
  shows "\<exists>image_sources success_count.
           convert_images w image_urls = Inr (image_sources, success_count)
         \<and> length image_sources = length image_urls
         \<and> (\<forall>i < length image_urls.
               image_sources ! i =
                 (case snd (convert_webp_to_jpg w (image_urls ! i) i) of
                    Some jpg_data \<Rightarrow> Jpg_data jpg_data
                  | None \<Rightarrow> Url_str (image_urls ! i)))
         \<and> success_count =
               length (filter (\<lambda>i. snd (convert_webp_to_jpg w (image_urls ! i) i) \<noteq> None)
                         [0..<length image_urls])
         \<and> (\<forall>finish. convert_images (w\<lparr>finish_time := finish\<rparr>) image_urls
                      = convert_images w image_urls)"
proof -
  have here: "convert_images w image_urls =
       Inr (map (\<lambda>i. case snd (convert_webp_to_jpg w (image_urls ! i) i) of
                        Some b \<Rightarrow> Jpg_data b
                      | None \<Rightarrow> Url_str (image_urls ! i)) [0..<length image_urls],
            length (filter (\<lambda>i. snd (convert_webp_to_jpg w (image_urls ! i) i) \<noteq> None)
                      [0..<length image_urls]))"
    using assms by (rule convert_images_value)
  have any: "convert_images (w\<lparr>finish_time := finish\<rparr>) image_urls = convert_images w image_urls"
    for finish
    using assms by (simp add: here convert_images_value)
  show ?thesis
    using here any by (simp cong: option.case_cong)
qed

theorem convert_images_order_preserved_witness:
  "(\<forall>body. to_jpeg images_world body \<noteq> Some [])
   \<and> convert_images images_world [''u0'', ''u1'', ''u2'']
       = Inr ([Jpg_data ''jpg:u0'', Url_str ''u1'', Jpg_data ''jpg:u2''], 2)
   \<and> convert_images (images_world\<lparr>finish_time := (\<lambda>i. i)\<rparr>) [''u0'', ''u1'', ''u2'']
       = Inr ([Jpg_data ''jpg:u0'', Url_str ''u1'', Jpg_data ''jpg:u2''], 2)"
proof -
  have never_empty: "\<forall>body. to_jpeg images_world body \<noteq> Some []"
    by (simp add: images_world_def failing_world_def)
  have run: "convert_images images_world [''u0'', ''u1'', ''u2'']
       = Inr ([Jpg_data ''jpg:u0'', Url_str ''u1'', Jpg_data ''jpg:u2''], 2)"
    by (simp add: convert_images_def images_world_def failing_world_def gather_def
        completion_order_def convert_webp_to_jpg_def url_at_def upt_conv_Cons enumerate_eq_zip)
  from convert_images_order_preserved [OF never_empty, of "[''u0'', ''u1'', ''u2'']"]
  have "convert_images (images_world\<lparr>finish_time := (\<lambda>i. i)\<rparr>) [''u0'', ''u1'', ''u2'']
      = convert_images images_world [''u0'', ''u1'', ''u2'']"
    by blast
  with never_empty run show ?thesis by simp
qed

subsection \<open>The fallback chain of the Douyin main link\<close>

lemma snd_parse_video [simp]: "snd (parse_video w u) = [Http_get Ios_headers u]"
  by (simp add: parse_video_def)

lemma parse_video_pair: "parse_video w u = (fst (parse_video w u), [Http_get Ios_headers u])"
  by (metis prod.collapse snd_parse_video)

lemma try_urls_caught:
  assumes "fst (parse_video w u) = Inl (ParseException e)"
  shows "try_urls w (u # urls) =
     (fst (try_urls w urls),
      [Http_get Ios_headers u, Log_warning (''failed to parse '' @ u @ '', error: '' @ e)]
        @ snd (try_urls w urls))"
  using assms parse_video_pair[of w u]
  by (cases "try_urls w urls") (simp split: prod.splits sum.splits error.splits)

lemma try_urls_returned:
  assumes "fst (parse_video w u) = Inr r"
  shows "try_urls w (u # urls) = (Inr r, [Http_get Ios_headers u])"
  using assms parse_video_pair[of w u] by simp



text \<open>A chain of any length whose strategies all raise \<open>ParseException\<close> tries each URL once,
  in order, and raises the final exception.\<close>

lemma try_urls_all_failed:
  assumes "\<forall>u \<in> set urls. \<exists>e. fst (parse_video w u) = Inl (ParseException e)"
  shows "fst (try_urls w urls) = Inl (ParseException all_failed_message)
       \<and> requested (snd (try_urls w urls)) = urls"
  using assms
proof (induction urls)
  case Nil
  then show ?case by simp
next
  case (Cons u urls)
  then obtain e where "fst (parse_video w u) = Inl (ParseException e)" by auto
  from try_urls_caught[OF this] Cons show ?case by simp
qed


text \<open>The first URL that returns ends the loop: no URL after it is requested.\<close>

lemma try_urls_first_success:
  assumes "\<forall>u \<in> set before. \<exists>e. fst (parse_video w u) = Inl (ParseException e)"
      and "fst (parse_video w u) = Inr r"
  shows "fst (try_urls w (before @ u # rest)) = Inr r
       \<and> requested (snd (try_urls w (before @ u # rest))) = before @ [u]"
  using assms
proof (induction before)
  case Nil
  then show ?case by (simp add: try_urls_returned del: try_urls.simps)
next
  case (Cons b before)
  then obtain e where "fst (parse_video w b) = Inl (ParseException e)" by auto
  from try_urls_caught[OF this] Cons show ?case by simp
qed


lemma parse_video_status:
  "http_get w Ios_headers u = Response st body \<Longrightarrow> st \<noteq> 200 \<Longrightarrow>
   fst (parse_video w u) = Inl (ParseException (''status: '' @ str_int st))"
  by (simp add: parse_video_def)


lemma parse_video_decoded:
  "http_get w Ios_headers u = Response 200 body \<Longrightarrow> search_router_data body = Some g \<Longrightarrow>
   g \<noteq> [] \<Longrightarrow> decode_router_data w (strip g) = Inr vd \<Longrightarrow>
   fst (parse_video w u) =
     and_then (parse_video_contents w vd) (\<lambda>contents.
       Inr (result (vd_desc vd) None (create_author (vd_nickname vd) (vd_avatar_url vd))
              (Some (vd_create_time vd)) contents))"
  by (simp add: parse_video_def and_then_def)

lemma match_router_data_no_prefix:
  "\<not> starts_with ''window._ROUTER_DATA'' s \<Longrightarrow> match_router_data s = None"
  unfolding match_router_data_def by (rule if_not_P)

lemma not_contains_Cons:
  "\<not> contains p (c # cs) \<Longrightarrow> \<not> starts_with p (c # cs) \<and> \<not> contains p cs"
  by simp

lemma search_router_data_absent:
  "\<not> contains ''window._ROUTER_DATA'' body \<Longrightarrow> search_router_data body = None"
proof (induction body)
  case Nil
  then show ?case by simp
next
  case (Cons c cs)
  from not_contains_Cons[OF Cons.prems]
  have here: "\<not> starts_with ''window._ROUTER_DATA'' (c # cs)"
    and rest: "\<not> contains ''window._ROUTER_DATA'' cs"
    by blast+
  show ?case
    using match_router_data_no_prefix[OF here] Cons.IH[OF rest]
    by (simp only: search_router_data.simps option.case)
qed

lemma parse_video_no_marker:
  "http_get w Ios_headers u = Response 200 body \<Longrightarrow> \<not> contains ''window._ROUTER_DATA'' body \<Longrightarrow>
   fst (parse_video w u) = Inl (ParseException cant_find_router_data)"
  by (simp add: parse_video_def search_router_data_absent)

text \<open>The example pages, evaluated.\<close>

lemmas example_worlds =
  douyin_pages_def images_world_def failing_world_def clip_page_def album_page_def
  bare_page_def broken_page_def forbidden_page_def plain_page_def
  clip_data_def album_data_def bare_data_def

lemmas parse_video_steps =
  parse_video_def match_router_data_def is_space_def strip_def and_then_def
  parse_video_contents_def result_def create_author_def create_video_content_def
  cant_find_router_data_def str_int_def digits.simps

lemma forbidden_page_raises:
  "http_get w Ios_headers u = forbidden_page \<Longrightarrow>
   fst (parse_video w u) = Inl (ParseException ''status: 403'')"
  by (simp add: parse_video_def forbidden_page_def str_int_def digits.simps)


lemma clip_page_returns:
  "http_get w Ios_headers u = clip_page \<Longrightarrow>
   decode_router_data w ''{\"clip\":1}'' = Inr clip_data \<Longrightarrow>
   fst (parse_video w u) =
     Inr \<lparr>res_title = ''a clip'', res_text = None,
          res_author = \<lparr>author_name = ''nick'', author_avatar = ''https://v/a.jpg''\<rparr>,
          res_timestamp = Some 1700000000,
          res_contents = [VideoContent (JStr ''https://v/clip.mp4'')
                            (Some ''https://v/cover.jpg'') (Some 15000)]\<rparr>"
  by (simp add: parse_video_steps clip_page_def clip_data_def)

lemma douyin_pages_get [simp]:
  "http_get (douyin_pages first second) p ''https://m.douyin.com/share/video/1'' = first"
  "http_get (douyin_pages first second) p ''https://www.iesdouyin.com/share/video/1'' = second"
  by (simp_all add: douyin_pages_def)

lemma douyin_pages_decode [simp]:
  "decode_router_data (douyin_pages first second) ''{\"clip\":1}'' = Inr clip_data"
  "decode_router_data (douyin_pages first second) ''{\"album\":1}'' = Inr album_data"
  "decode_router_data (douyin_pages first second) ''{\"bare\":1}'' = Inr bare_data"
  "decode_router_data (douyin_pages first second) ''{\"clip\":'' = Inl DecodeError"
  by (simp_all add: douyin_pages_def)

lemma build_urls_video_1 [simp]:
  "build_m_douyin_url ''video'' ''1'' = ''https://m.douyin.com/share/video/1''"
  "build_iesdouyin_url ''video'' ''1'' = ''https://www.iesdouyin.com/share/video/1''"
  by (simp_all add: build_m_douyin_url_def build_iesdouyin_url_def)

lemma parse_douyin_video_1:
  "parse_douyin w ''video'' ''1'' =
     try_urls w [''https://m.douyin.com/share/video/1'', ''https://www.iesdouyin.com/share/video/1'']"
  by (simp add: parse_douyin_def)


lemma first_page_forbidden:
  "parse_douyin (douyin_pages forbidden_page second) ''video'' ''1'' =
     (fst (try_urls (douyin_pages forbidden_page second) [''https://www.iesdouyin.com/share/video/1'']),
      [Http_get Ios_headers ''https://m.douyin.com/share/video/1'',
       Log_warning ''failed to parse https://m.douyin.com/share/video/1, error: status: 403'']
      @ snd (try_urls (douyin_pages forbidden_page second) [''https://www.iesdouyin.com/share/video/1'']))"
  unfolding parse_douyin_video_1
  using try_urls_caught[of "douyin_pages forbidden_page second" "''https://m.douyin.com/share/video/1''" "''status: 403''"]
  by (simp add: forbidden_page_raises del: try_urls.simps)

subsection \<open>C3: which exceptions of an attempt the chain catches\<close>





subsection \<open>C4: the attempts before the final exception\<close>




subsection \<open>C5: the chain stops at the first success\<close>

lemma snd_parse_explore [simp]:
  "snd (parse_explore w u xhs_id) = [Http_get Default_headers u]"
  by (simp add: parse_explore_def)

lemma snd_parse_discovery [simp]:
  "snd (parse_discovery w u) = [Http_get Ios_headers u]"
  by (simp add: parse_discovery_def)

lemma parse_explore_pair:
  "parse_explore w u xhs_id = (fst (parse_explore w u xhs_id), [Http_get Default_headers u])"
  by (metis prod.collapse snd_parse_explore)

lemmas convert_steps =
  and_then_def required_field_def optional_field_def convert_str_def convert_int_def
  convert_list_def convert_optional_def convert_dict_def
  convert_Stream_def convert_Media_def convert_Video_def
  convert_ExploreImage_def convert_ExploreUser_def convert_NoteDetail_def
  convert_DiscoveryImage_def convert_DiscoveryUser_def convert_NoteData_def
  convert_NormalNotePreloadData_def

lemmas video_url_steps =
  NoteDetail_video_url_def NoteData_video_url_def Video_video_url_def nonempty_def
  master_url_def NoteDetail_image_urls_def NoteData_image_urls_def
  NormalNotePreloadData_image_urls_def large_or_url_def

lemma convert_video_note:
  "convert_NoteDetail video_note =
     Inr \<lparr>nd_type = ''video'', nd_title = ''t'', nd_desc = ''d'',
        nd_user = \<lparr>nickname = ''n'', avatar = ''a.jpg''\<rparr>,
        nd_imageList = [\<lparr>urlDefault = ''c.jpg''\<rparr>],
        nd_video = Some \<lparr>media = \<lparr>stream =
                 \<lparr>h264 = Some [[(''masterUrl'', JStr ''w.mp4'')]],
                    h265 = Some [[(''masterUrl'', JStr ''v.mp4'')]],
                    av1 = None, h266 = None\<rparr>\<rparr>\<rparr>\<rparr>"
  by (simp add: video_note_def convert_steps)

lemma extract_explore_page:
  "extract_initial_state_json xhs_world explore_html = Inr explore_state"
proof -
  have "search_initial_state explore_html = Some explore_payload"
    by (simp add: explore_html_def match_initial_state_def explore_payload_def)
  then show ?thesis
    by (simp add: extract_initial_state_json_def explore_payload_def xhs_world_def)
qed

lemma explore_page_returns:
  "fst (parse_explore xhs_world ''https://www.xiaohongshu.com/explore/abc?x=1'' ''abc'') =
     Inr video_note_result"
proof -
  have page: "http_get xhs_world Default_headers ''https://www.xiaohongshu.com/explore/abc?x=1''
     = Response 200 explore_html"
    by (simp add: xhs_world_def)
  have true: "truthy video_note" by (simp add: video_note_def)
  show ?thesis
    unfolding parse_explore_def page
    by (simp add: true extract_explore_page explore_state_def and_then_def dict_get_def
        convert_video_note video_note_def [symmetric] parse_explore_contents_def video_url_steps
        create_video_content_def result_def create_author_def video_note_result_def)
qed

text \<open>
  C5. In \<^verbatim>\<open>_parse_douyin\<close>, when \<^verbatim>\<open>parse_video\<close> on the m.douyin URL returns a result, that
  result is returned and the iesdouyin URL is never requested. In \<^verbatim>\<open>_parse_discovery\<close>,
  when \<^verbatim>\<open>parse_explore\<close> returns a result, that result is returned and \<^verbatim>\<open>parse_discovery\<close>
  (the only request sent with the iOS headers) is never called. For a chain of any length:
  when the strategies before one that returns all fail with a \<open>ParseException\<close>, the URLs
  requested are those up to the one that returned, and none after it.
\<close>

theorem first_success_short_circuits:
  "(ty \<noteq> ''slides'' \<and> fst (parse_video w (build_m_douyin_url ty vid)) = Inr r \<longrightarrow>
       parse_douyin w ty vid = (Inr r, [Http_get Ios_headers (build_m_douyin_url ty vid)])
     \<and> build_iesdouyin_url ty vid \<notin> set (requested (snd (parse_douyin w ty vid))))
   \<and> (fst (parse_explore w
              (''https://www.xiaohongshu.com/'' @ replace_first ''discovery/item'' ''explore'' route)
              xhs_id) = Inr r' \<longrightarrow>
       underscore_parse_discovery w route xhs_id =
         (Inr r', [Http_get Default_headers
                    (''https://www.xiaohongshu.com/''
                       @ replace_first ''discovery/item'' ''explore'' route)])
     \<and> (\<forall>u. Http_get Ios_headers u \<notin> set (snd (underscore_parse_discovery w route xhs_id))))
   \<and> ((\<forall>u \<in> set before. \<exists>e. fst (parse_video w u) = Inl (ParseException e))
        \<and> fst (parse_video w good) = Inr r \<longrightarrow>
       fst (try_urls w (before @ good # rest)) = Inr r
     \<and> requested (snd (try_urls w (before @ good # rest))) = before @ [good])"
proof (intro conjI impI)
  assume a: "ty \<noteq> ''slides'' \<and> fst (parse_video w (build_m_douyin_url ty vid)) = Inr r"
  then show d: "parse_douyin w ty vid = (Inr r, [Http_get Ios_headers (build_m_douyin_url ty vid)])"
    by (simp add: parse_douyin_def try_urls_returned del: try_urls.simps)
  have "build_iesdouyin_url ty vid \<noteq> build_m_douyin_url ty vid"
    by (simp add: build_iesdouyin_url_def build_m_douyin_url_def)
  then show "build_iesdouyin_url ty vid \<notin> set (requested (snd (parse_douyin w ty vid)))"
    unfolding d by simp
next
  let ?u = "''https://www.xiaohongshu.com/'' @ replace_first ''discovery/item'' ''explore'' route"
  assume b: "fst (parse_explore w ?u xhs_id) = Inr r'"
  then show x: "underscore_parse_discovery w route xhs_id = (Inr r', [Http_get Default_headers ?u])"
    using parse_explore_pair[of w ?u xhs_id]
    by (simp add: underscore_parse_discovery_def)
  show "\<forall>u. Http_get Ios_headers u \<notin> set (snd (underscore_parse_discovery w route xhs_id))"
    unfolding x by simp
next
  assume "(\<forall>u \<in> set before. \<exists>e. fst (parse_video w u) = Inl (ParseException e))
        \<and> fst (parse_video w good) = Inr r"
  then show "fst (try_urls w (before @ good # rest)) = Inr r"
    and "requested (snd (try_urls w (before @ good # rest))) = before @ [good]"
    using try_urls_first_success by blast+
qed


theorem first_success_short_circuits_witness:
  "''video'' \<noteq> ''slides''
   \<and> fst (parse_video (douyin_pages clip_page forbidden_page)
            ''https://m.douyin.com/share/video/1'') = Inr clip_result
   \<and> parse_douyin (douyin_pages clip_page forbidden_page) ''video'' ''1'' =
        (Inr clip_result, [Http_get Ios_headers ''https://m.douyin.com/share/video/1''])
   \<and> fst (parse_explore xhs_world ''https://www.xiaohongshu.com/explore/abc?x=1'' ''abc'') =
        Inr video_note_result
   \<and> underscore_parse_discovery xhs_world ''discovery/item/abc?x=1'' ''abc'' =
        (Inr video_note_result,
         [Http_get Default_headers ''https://www.xiaohongshu.com/explore/abc?x=1''])
   \<and> fst (parse_video (douyin_pages forbidden_page clip_page)
            ''https://m.douyin.com/share/video/1'') = Inl (ParseException ''status: 403'')
   \<and> fst (parse_video (douyin_pages forbidden_page clip_page)
            ''https://www.iesdouyin.com/share/video/1'') = Inr clip_result
   \<and> requested (snd (try_urls (douyin_pages forbidden_page clip_page)
         [''https://m.douyin.com/share/video/1'', ''https://www.iesdouyin.com/share/video/1'',
          ''https://example.invalid/third''])) =
        [''https://m.douyin.com/share/video/1'', ''https://www.iesdouyin.com/share/video/1'']"
proof -
  have ty: "''video'' \<noteq> ''slides''" by simp
  have clip: "fst (parse_video (douyin_pages clip_page forbidden_page)
            ''https://m.douyin.com/share/video/1'') = Inr clip_result"
    by (simp add: clip_page_returns clip_result_def)
  have route: "''https://www.xiaohongshu.com/''
        @ replace_first ''discovery/item'' ''explore'' ''discovery/item/abc?x=1''
      = ''https://www.xiaohongshu.com/explore/abc?x=1''"
    by simp
  have forbidden: "fst (parse_video (douyin_pages forbidden_page clip_page)
            ''https://m.douyin.com/share/video/1'') = Inl (ParseException ''status: 403'')"
    by (simp add: forbidden_page_raises)
  have second: "fst (parse_video (douyin_pages forbidden_page clip_page)
            ''https://www.iesdouyin.com/share/video/1'') = Inr clip_result"
    by (simp add: clip_page_returns clip_result_def)
  note a = first_success_short_circuits
    [of "''video''" "douyin_pages clip_page forbidden_page" "''1''" clip_result
        "''discovery/item/abc?x=1''" "''abc''" video_note_result "[]" _ "[]"]
  note b = first_success_short_circuits
    [of "''video''" xhs_world "''1''" clip_result
        "''discovery/item/abc?x=1''" "''abc''" video_note_result "[]" _ "[]"]
  note c = first_success_short_circuits
    [of "''video''" "douyin_pages forbidden_page clip_page" "''1''" clip_result
        "''discovery/item/abc?x=1''" "''abc''" video_note_result
        "[''https://m.douyin.com/share/video/1'']" "''https://www.iesdouyin.com/share/video/1''"
        "[''https://example.invalid/third'']"]
  have one: "parse_douyin (douyin_pages clip_page forbidden_page) ''video'' ''1'' =
        (Inr clip_result, [Http_get Ios_headers ''https://m.douyin.com/share/video/1''])"
    using a ty clip by simp
  have two: "underscore_parse_discovery xhs_world ''discovery/item/abc?x=1'' ''abc'' =
        (Inr video_note_result,
         [Http_get Default_headers ''https://www.xiaohongshu.com/explore/abc?x=1''])"
    using b explore_page_returns unfolding route by blast
  have three: "requested (snd (try_urls (douyin_pages forbidden_page clip_page)
         [''https://m.douyin.com/share/video/1'', ''https://www.iesdouyin.com/share/video/1'',
          ''https://example.invalid/third''])) =
        [''https://m.douyin.com/share/video/1'', ''https://www.iesdouyin.com/share/video/1'']"
    using c forbidden second by (simp del: try_urls.simps)
  show ?thesis
    using ty clip one explore_page_returns two forbidden second three by blast
qed

subsection \<open>C7: a body without the marker\<close>

lemma starts_with_append: "starts_with (p @ q) s \<Longrightarrow> starts_with p s"
  by (induction p s rule: starts_with.induct) auto

lemma match_initial_state_no_prefix:
  "\<not> starts_with ''window.__INITIAL_STATE__'' s \<Longrightarrow> match_initial_state s = None"
proof -
  assume a: "\<not> starts_with ''window.__INITIAL_STATE__'' s"
  have "\<not> starts_with (''window.__INITIAL_STATE__'' @ ''='') s"
    using a starts_with_append by blast
  then have "\<not> starts_with ''window.__INITIAL_STATE__='' s" by simp
  then show ?thesis unfolding match_initial_state_def by (rule if_not_P)
qed

lemma search_initial_state_absent:
  "\<not> contains ''window.__INITIAL_STATE__'' html \<Longrightarrow> search_initial_state html = None"
proof (induction html)
  case Nil
  then show ?case by simp
next
  case (Cons c cs)
  from not_contains_Cons[OF Cons.prems]
  have here: "\<not> starts_with ''window.__INITIAL_STATE__'' (c # cs)"
    and rest: "\<not> contains ''window.__INITIAL_STATE__'' cs"
    by blast+
  show ?case
    using match_initial_state_no_prefix[OF here] Cons.IH[OF rest]
    by (simp only: search_initial_state.simps option.case)
qed

text \<open>
  C7, as stated, at a concrete input: the body has no \<^verbatim>\<open>window.__INITIAL_STATE__\<close>, and
  \<^verbatim>\<open>_extract_initial_state_json\<close> raises a \<open>ParseException\<close> whose message does not hold
  the name of the marker.
\<close>

theorem initial_state_message_counterexample:
  "\<not> contains ''window.__INITIAL_STATE__'' ''<html><body>gone</body></html>''
   \<and> extract_initial_state_json failing_world ''<html><body>gone</body></html>''
        = Inl (ParseException link_invalid_message)
   \<and> \<not> contains ''__INITIAL_STATE__'' link_invalid_message
   \<and> \<not> contains ''INITIAL_STATE'' link_invalid_message"
  by (simp add: extract_initial_state_json_def match_initial_state_def link_invalid_message_def)

text \<open>
  C7, amended. A body fetched with status 200 that lacks \<^verbatim>\<open>window._ROUTER_DATA\<close> makes
  \<^verbatim>\<open>parse_video\<close> raise a \<open>ParseException\<close> whose message names \<^verbatim>\<open>_ROUTER_DATA\<close>. A body
  that lacks \<^verbatim>\<open>window.__INITIAL_STATE__\<close> makes \<^verbatim>\<open>_extract_initial_state_json\<close> raise a
  \<open>ParseException\<close> with a fixed message for the user (the share link is invalid or the
  content deleted), which does not name the marker.
\<close>

theorem marker_absent_raises:
  "(http_get w Ios_headers u = Response 200 body
      \<and> \<not> contains ''window._ROUTER_DATA'' body \<longrightarrow>
        fst (parse_video w u) = Inl (ParseException cant_find_router_data))
   \<and> contains ''_ROUTER_DATA'' cant_find_router_data
   \<and> (\<not> contains ''window.__INITIAL_STATE__'' html \<longrightarrow>
        extract_initial_state_json w html = Inl (ParseException link_invalid_message))
   \<and> \<not> contains ''__INITIAL_STATE__'' link_invalid_message"
proof (intro conjI impI)
  assume "http_get w Ios_headers u = Response 200 body
      \<and> \<not> contains ''window._ROUTER_DATA'' body"
  then show "fst (parse_video w u) = Inl (ParseException cant_find_router_data)"
    using parse_video_no_marker by blast
next
  show "contains ''_ROUTER_DATA'' cant_find_router_data"
    by (simp add: cant_find_router_data_def)
next
  assume "\<not> contains ''window.__INITIAL_STATE__'' html"
  then show "extract_initial_state_json w html = Inl (ParseException link_invalid_message)"
    by (simp add: extract_initial_state_json_def search_initial_state_absent)
next
  show "\<not> contains ''__INITIAL_STATE__'' link_invalid_message"
    by (simp add: link_invalid_message_def)
qed

theorem marker_absent_raises_witness:
  "http_get (douyin_pages plain_page clip_page) Ios_headers ''https://m.douyin.com/share/video/1''
     = Response 200 ''<html><body>gone</body></html>''
   \<and> \<not> contains ''window._ROUTER_DATA'' ''<html><body>gone</body></html>''
   \<and> fst (parse_video (douyin_pages plain_page clip_page) ''https://m.douyin.com/share/video/1'')
        = Inl (ParseException cant_find_router_data)
   \<and> \<not> contains ''window.__INITIAL_STATE__'' ''<html><body>gone</body></html>''
   \<and> extract_initial_state_json xhs_world ''<html><body>gone</body></html>''
        = Inl (ParseException link_invalid_message)"
proof -
  have page: "http_get (douyin_pages plain_page clip_page) Ios_headers
       ''https://m.douyin.com/share/video/1'' = Response 200 ''<html><body>gone</body></html>''"
    by (simp add: plain_page_def)
  have absent: "\<not> contains ''window._ROUTER_DATA'' ''<html><body>gone</body></html>''"
    by simp
  have absent': "\<not> contains ''window.__INITIAL_STATE__'' ''<html><body>gone</body></html>''"
    by simp
  note a = marker_absent_raises [of "douyin_pages plain_page clip_page"
      "''https://m.douyin.com/share/video/1''" "''<html><body>gone</body></html>''"
      "''<html><body>gone</body></html>''"]
  note b = marker_absent_raises [of xhs_world
      "''https://m.douyin.com/share/video/1''" "''<html><body>gone</body></html>''"
      "''<html><body>gone</body></html>''"]
  show ?thesis
    using a b page absent absent' by blast
qed

subsection \<open>The contents of each parse path\<close>

lemma create_image_contents_map:
  "create_image_contents srcs =
     map (\<lambda>s. case s of Jpg_data b \<Rightarrow> ImageContent (Create_jpg_task b)
                       | Url_str u \<Rightarrow> ImageContent (Download_img u)) srcs"
  by (induction srcs rule: create_image_contents.induct) simp_all

lemma images_in_order_upt:
  "images_in_order w urls = map (\<lambda>i. converted_image w (urls ! i) i) [0..<length urls]"
  unfolding images_in_order_def
  by (rule nth_equalityI) (simp_all add: nth_enumerate_eq)

lemma image_branch:
  "and_then (convert_images w urls)
     (\<lambda>(image_sources, success_count). Inr (create_image_contents image_sources))
   = Inr (images_in_order w urls)"
  unfolding convert_images_general images_in_order_upt
  by (simp add: and_then_def create_image_contents_map converted_image_def comp_def
      split: option.splits)

lemmas image_branch_case = image_branch [unfolded and_then_def]

lemma length_images_in_order [simp]: "length (images_in_order w urls) = length urls"
  by (simp add: images_in_order_def)

lemma images_in_order_Nil [simp]: "images_in_order w [] = []"
  by (simp add: images_in_order_def)

lemma images_in_order_eq_Nil [simp]: "images_in_order w urls = [] \<longleftrightarrow> urls = []"
  by (metis length_images_in_order length_0_conv)

lemma parse_video_contents_value:
  "parse_video_contents w vd =
     Inr (if vd_image_urls vd \<noteq> [] then images_in_order w (vd_image_urls vd)
          else (case vd_video_url vd of
                  None \<Rightarrow> []
                | Some v \<Rightarrow>
                    if v \<noteq> [] then
                      [VideoContent (JStr v) (vd_cover_url vd)
                         (Some (case vd_video_duration vd of Some d \<Rightarrow> d | None \<Rightarrow> 0))]
                    else []))"
  by (simp add: parse_video_contents_def image_branch create_video_content_def
      split: option.splits)

lemma parse_slides_contents_value:
  "parse_slides_contents w sd =
     Inr (images_in_order w (sd_image_urls sd) @ map DynamicContent (sd_dynamic_urls sd))"
  by (simp add: parse_slides_contents_def and_then_def image_branch_case
      create_dynamic_contents_def)

lemma parse_explore_contents_value:
  "NoteDetail_video_url d = Inr v \<Longrightarrow>
   parse_explore_contents w d =
     Inr (if truthy v
          then [VideoContent v (case NoteDetail_image_urls d of [] \<Rightarrow> None | c # _ \<Rightarrow> Some c)
                  None]
          else images_in_order w (NoteDetail_image_urls d))"
  by (simp add: parse_explore_contents_def and_then_def image_branch_case
      create_video_content_def)

lemma parse_discovery_contents_images:
  "NoteData_video_url nd = Inr v \<Longrightarrow> \<not> truthy v \<Longrightarrow>
   parse_discovery_contents w pre nd = Inr (images_in_order w (NoteData_image_urls nd))"
  by (simp add: parse_discovery_contents_def and_then_def image_branch_case)

lemma parse_discovery_contents_video:
  "NoteData_video_url nd = Inr v \<Longrightarrow> truthy v \<Longrightarrow> \<not> truthy pre \<Longrightarrow>
   NoteData_image_urls nd = c # cs \<Longrightarrow>
   parse_discovery_contents w pre nd = Inr [VideoContent v (Some c) None]"
  by (simp add: parse_discovery_contents_def and_then_def create_video_content_def)

lemma parse_discovery_contents_video_preload:
  "NoteData_video_url nd = Inr v \<Longrightarrow> truthy v \<Longrightarrow> truthy pre \<Longrightarrow>
   convert_NormalNotePreloadData pre = Inr p \<Longrightarrow>
   NormalNotePreloadData_image_urls p = c # cs \<Longrightarrow>
   parse_discovery_contents w pre nd = Inr [VideoContent v (Some c) None]"
  by (simp add: parse_discovery_contents_def and_then_def create_video_content_def)

subsection \<open>C2: video, images and dynamic contents\<close>

lemmas image_steps =
  images_in_order_def converted_image_def convert_webp_to_jpg_def enumerate_eq_zip
  upt_conv_Cons images_world_def failing_world_def

lemma video_url_two_codecs: "Video_video_url two_codecs = Inr (JStr ''v.mp4'')"
  by (simp add: Video_video_url_def two_codecs_def nonempty_def master_url_def)

lemma video_url_video_detail: "NoteDetail_video_url video_detail = Inr (JStr ''v.mp4'')"
  by (simp add: NoteDetail_video_url_def video_detail_def video_url_two_codecs)

lemma video_url_video_note_data: "NoteData_video_url video_note_data = Inr (JStr ''v.mp4'')"
  by (simp add: NoteData_video_url_def video_note_data_def video_url_two_codecs)

lemma video_url_image_note_data: "NoteData_video_url image_note_data = Inr JNull"
  by (simp add: NoteData_video_url_def image_note_data_def video_note_data_def)

lemma convert_preload_example:
  "convert_NormalNotePreloadData preload_example =
     Inr \<lparr>preload_title = ''t'', preload_desc = ''d'',
          preload_imagesList = [\<lparr>url = ''small.jpg'', urlSizeLarge = Some ''large.jpg''\<rparr>]\<rparr>"
  by (simp add: preload_example_def convert_NormalNotePreloadData_def convert_DiscoveryImage_def
      and_then_def required_field_def optional_field_def convert_str_def convert_list_def
      convert_optional_def)

text \<open>
  C2, as stated, at a concrete input: a Douyin post whose decoded data has three image
  URLs and a video URL. \<^verbatim>\<open>parse_video\<close> returns the three images and no video.
\<close>

theorem images_before_video_counterexample:
  "vd_video_url album_data = Some ''https://v/clip.mp4''
   \<and> parse_video_contents images_world album_data =
       Inr [ImageContent (Create_jpg_task ''jpg:u0''), ImageContent (Download_img ''u1''),
            ImageContent (Create_jpg_task ''jpg:u2'')]
   \<and> fst (parse_video (douyin_pages album_page clip_page) ''https://m.douyin.com/share/video/1'') =
       Inr \<lparr>res_title = ''an album'', res_text = None,
            res_author = \<lparr>author_name = ''nick'', author_avatar = ''https://v/a.jpg''\<rparr>,
            res_timestamp = Some 1700000000,
            res_contents =
              [ImageContent (Create_jpg_task ''jpg:u0''), ImageContent (Download_img ''u1''),
               ImageContent (Create_jpg_task ''jpg:u2'')]\<rparr>"
proof -
  have c: "parse_video_contents w album_data = Inr (images_in_order w [''u0'', ''u1'', ''u2''])" for w
    by (simp add: parse_video_contents_value album_data_def clip_data_def)
  have i: "images_in_order images_world [''u0'', ''u1'', ''u2''] =
       [ImageContent (Create_jpg_task ''jpg:u0''), ImageContent (Download_img ''u1''),
        ImageContent (Create_jpg_task ''jpg:u2'')]"
    by (simp add: image_steps)
  have i': "images_in_order (douyin_pages album_page clip_page) [''u0'', ''u1'', ''u2''] =
       [ImageContent (Create_jpg_task ''jpg:u0''), ImageContent (Download_img ''u1''),
        ImageContent (Create_jpg_task ''jpg:u2'')]"
    by (simp add: image_steps douyin_pages_def)
  have p: "fst (parse_video (douyin_pages album_page clip_page) ''https://m.douyin.com/share/video/1'')
      = and_then (parse_video_contents (douyin_pages album_page clip_page) album_data) (\<lambda>contents.
       Inr (result (vd_desc album_data) None
              (create_author (vd_nickname album_data) (vd_avatar_url album_data))
              (Some (vd_create_time album_data)) contents))"
    by (rule parse_video_decoded [where body = "''<script>window._ROUTER_DATA = {\"album\":1}</script>''"
          and g = "''{\"album\":1}''"])
       (simp_all add: album_page_def match_router_data_def is_space_def strip_def)
  show ?thesis
    unfolding p c i i'
    by (simp add: album_data_def clip_data_def and_then_def result_def create_author_def)
qed

text \<open>
  C2, amended. \<^verbatim>\<open>parse_explore\<close>: when the note's video URL is true the contents are that
  video alone, with the first image as its cover when there is one; otherwise they are the
  image sequence in the order of the image list. \<^verbatim>\<open>parse_discovery\<close>: the same, the cover
  being the first URL of the preload data when that is true and of the note's own images
  otherwise, provided that list has a first URL. Douyin's \<^verbatim>\<open>parse_video\<close> gives the images
  the precedence: when there is an image URL the contents are the image sequence in order
  and no video; the video, with its cover, is the contents only when there is no image.
  \<^verbatim>\<open>parse_slides\<close> has no video: its contents are the image sequence in order followed by
  the dynamic contents in order. The image sequence has one content per URL, the content
  at index \<open>i\<close> made from URL \<open>i\<close>.
\<close>

theorem contents_priority:
  "(\<forall>v. NoteDetail_video_url d = Inr v \<longrightarrow>
       parse_explore_contents w d =
         Inr (if truthy v
              then [VideoContent v
                      (case NoteDetail_image_urls d of [] \<Rightarrow> None | c # _ \<Rightarrow> Some c) None]
              else images_in_order w (NoteDetail_image_urls d)))
   \<and> (\<forall>v. NoteData_video_url nd = Inr v \<and> \<not> truthy v \<longrightarrow>
       parse_discovery_contents w pre nd = Inr (images_in_order w (NoteData_image_urls nd)))
   \<and> (\<forall>v c cs. NoteData_video_url nd = Inr v \<and> truthy v \<and> \<not> truthy pre
          \<and> NoteData_image_urls nd = c # cs \<longrightarrow>
       parse_discovery_contents w pre nd = Inr [VideoContent v (Some c) None])
   \<and> (\<forall>v p c cs. NoteData_video_url nd = Inr v \<and> truthy v \<and> truthy pre
          \<and> convert_NormalNotePreloadData pre = Inr p
          \<and> NormalNotePreloadData_image_urls p = c # cs \<longrightarrow>
       parse_discovery_contents w pre nd = Inr [VideoContent v (Some c) None])
   \<and> parse_video_contents w vd =
       Inr (if vd_image_urls vd \<noteq> [] then images_in_order w (vd_image_urls vd)
            else (case vd_video_url vd of
                    None \<Rightarrow> []
                  | Some v \<Rightarrow>
                      if v \<noteq> [] then
                        [VideoContent (JStr v) (vd_cover_url vd)
                           (Some (case vd_video_duration vd of Some t \<Rightarrow> t | None \<Rightarrow> 0))]
                      else []))
   \<and> parse_slides_contents w sd =
       Inr (images_in_order w (sd_image_urls sd) @ map DynamicContent (sd_dynamic_urls sd))
   \<and> length (images_in_order w urls) = length urls
   \<and> (\<forall>i < length urls. images_in_order w urls ! i = converted_image w (urls ! i) i)"
proof (intro conjI allI impI)
  fix v assume "NoteDetail_video_url d = Inr v"
  then show "parse_explore_contents w d =
         Inr (if truthy v
              then [VideoContent v
                      (case NoteDetail_image_urls d of [] \<Rightarrow> None | c # _ \<Rightarrow> Some c) None]
              else images_in_order w (NoteDetail_image_urls d))"
    by (rule parse_explore_contents_value)
next
  fix v assume "NoteData_video_url nd = Inr v \<and> \<not> truthy v"
  then show "parse_discovery_contents w pre nd = Inr (images_in_order w (NoteData_image_urls nd))"
    using parse_discovery_contents_images by blast
next
  fix v c cs
  assume "NoteData_video_url nd = Inr v \<and> truthy v \<and> \<not> truthy pre
          \<and> NoteData_image_urls nd = c # cs"
  then show "parse_discovery_contents w pre nd = Inr [VideoContent v (Some c) None]"
    using parse_discovery_contents_video by blast
next
  fix v p c cs
  assume "NoteData_video_url nd = Inr v \<and> truthy v \<and> truthy pre
          \<and> convert_NormalNotePreloadData pre = Inr p
          \<and> NormalNotePreloadData_image_urls p = c # cs"
  then show "parse_discovery_contents w pre nd = Inr [VideoContent v (Some c) None]"
    using parse_discovery_contents_video_preload by blast
next
  show "parse_video_contents w vd =
       Inr (if vd_image_urls vd \<noteq> [] then images_in_order w (vd_image_urls vd)
            else (case vd_video_url vd of
                    None \<Rightarrow> []
                  | Some v \<Rightarrow>
                      if v \<noteq> [] then
                        [VideoContent (JStr v) (vd_cover_url vd)
                           (Some (case vd_video_duration vd of Some t \<Rightarrow> t | None \<Rightarrow> 0))]
                      else []))"
    by (rule parse_video_contents_value)
next
  show "parse_slides_contents w sd =
       Inr (images_in_order w (sd_image_urls sd) @ map DynamicContent (sd_dynamic_urls sd))"
    by (rule parse_slides_contents_value)
next
  show "length (images_in_order w urls) = length urls" by simp
next
  fix i assume "i < length urls"
  then show "images_in_order w urls ! i = converted_image w (urls ! i) i"
    by (simp add: images_in_order_upt)
qed

theorem contents_priority_witness:
  "NoteDetail_video_url video_detail = Inr (JStr ''v.mp4'')
   \<and> parse_explore_contents images_world video_detail =
        Inr [VideoContent (JStr ''v.mp4'') (Some ''c.jpg'') None]
   \<and> NoteData_video_url image_note_data = Inr JNull \<and> \<not> truthy JNull
   \<and> parse_discovery_contents images_world (JObj []) image_note_data =
        Inr [ImageContent (Create_jpg_task ''jpg:u0''), ImageContent (Download_img ''u1'')]
   \<and> NoteData_video_url video_note_data = Inr (JStr ''v.mp4'') \<and> truthy (JStr ''v.mp4'')
   \<and> \<not> truthy (JObj []) \<and> NoteData_image_urls video_note_data = [''c.jpg'']
   \<and> parse_discovery_contents images_world (JObj []) video_note_data =
        Inr [VideoContent (JStr ''v.mp4'') (Some ''c.jpg'') None]
   \<and> truthy preload_example
   \<and> parse_discovery_contents images_world preload_example video_note_data =
        Inr [VideoContent (JStr ''v.mp4'') (Some ''large.jpg'') None]
   \<and> parse_video_contents images_world clip_data =
        Inr [VideoContent (JStr ''https://v/clip.mp4'') (Some ''https://v/cover.jpg'') (Some 15000)]
   \<and> parse_slides_contents images_world slides_example =
        Inr [ImageContent (Create_jpg_task ''jpg:u0''), ImageContent (Download_img ''u1''),
             DynamicContent ''live.mp4'']"
proof -
  note t = contents_priority [of video_detail images_world image_note_data "JObj []"
      clip_data slides_example "[]"]
  note t' = contents_priority [of video_detail images_world video_note_data "JObj []"
      clip_data slides_example "[]"]
  note t'' = contents_priority [of video_detail images_world video_note_data preload_example
      clip_data slides_example "[]"]
  have urls: "NoteData_image_urls video_note_data = [''c.jpg'']"
    "NoteData_image_urls image_note_data = [''u0'', ''u1'']"
    "NoteDetail_image_urls video_detail = [''c.jpg'']"
    by (simp_all add: NoteData_image_urls_def NoteDetail_image_urls_def video_note_data_def
        image_note_data_def video_detail_def)
  have large: "NormalNotePreloadData_image_urls
       \<lparr>preload_title = ''t'', preload_desc = ''d'',
          preload_imagesList = [\<lparr>url = ''small.jpg'', urlSizeLarge = Some ''large.jpg''\<rparr>]\<rparr>
       = [''large.jpg'']"
    by (simp add: NormalNotePreloadData_image_urls_def large_or_url_def)
  have imgs: "images_in_order images_world [''u0'', ''u1''] =
      [ImageContent (Create_jpg_task ''jpg:u0''), ImageContent (Download_img ''u1'')]"
    by (simp add: image_steps)
  have pre: "truthy preload_example" by (simp add: preload_example_def)
  have one: "parse_explore_contents images_world video_detail =
        Inr [VideoContent (JStr ''v.mp4'') (Some ''c.jpg'') None]"
    using t video_url_video_detail by (simp add: urls)
  have two: "parse_discovery_contents images_world (JObj []) image_note_data =
        Inr [ImageContent (Create_jpg_task ''jpg:u0''), ImageContent (Download_img ''u1'')]"
    using t video_url_image_note_data by (simp add: urls imgs)
  have three: "parse_discovery_contents images_world (JObj []) video_note_data =
        Inr [VideoContent (JStr ''v.mp4'') (Some ''c.jpg'') None]"
    using t' video_url_video_note_data urls by simp
  have four: "parse_discovery_contents images_world preload_example video_note_data =
        Inr [VideoContent (JStr ''v.mp4'') (Some ''large.jpg'') None]"
    using t'' video_url_video_note_data pre convert_preload_example large by simp
  have five: "parse_video_contents images_world clip_data =
        Inr [VideoContent (JStr ''https://v/clip.mp4'') (Some ''https://v/cover.jpg'') (Some 15000)]"
    using t by (simp add: clip_data_def)
  have six: "parse_slides_contents images_world slides_example =
        Inr [ImageContent (Create_jpg_task ''jpg:u0''), ImageContent (Download_img ''u1''),
             DynamicContent ''live.mp4'']"
    using t by (simp add: slides_example_def imgs)
  show ?thesis
    using one two three four five six video_url_video_detail video_url_image_note_data
      video_url_video_note_data urls pre by simp
qed

text \<open>The contents of a returned result are those of the decoded post or note.\<close>

lemma parse_video_result_contents:
  "fst (parse_video w u) = Inr r \<Longrightarrow>
   \<exists>body g vd. http_get w Ios_headers u = Response 200 body
      \<and> search_router_data body = Some g \<and> g \<noteq> []
      \<and> decode_router_data w (strip g) = Inr vd
      \<and> parse_video_contents w vd = Inr (res_contents r)"
  by (auto simp: parse_video_def and_then_def result_def
      split: http_outcome.splits if_splits option.splits sum.splits)

lemma parse_slides_result_contents:
  "fst (parse_slides w vid) = Inr r \<Longrightarrow>
   \<exists>body sd rest. slides_get w vid = Inr body \<and> decode_slides_info w body = Inr (sd # rest)
      \<and> parse_slides_contents w sd = Inr (res_contents r)"
  by (auto simp: parse_slides_def and_then_def result_def
      split: if_splits option.splits sum.splits list.splits)

lemma parse_explore_result_contents:
  "fst (parse_explore w u xhs_id) = Inr r \<Longrightarrow>
   \<exists>note_data d. truthy note_data \<and> convert_NoteDetail note_data = Inr d
      \<and> parse_explore_contents w d = Inr (res_contents r)"
  by (auto simp: parse_explore_def and_then_def result_def
      split: http_outcome.splits if_splits option.splits sum.splits)

lemma parse_discovery_result_contents:
  "fst (parse_discovery w u) = Inr r \<Longrightarrow>
   \<exists>pre inner nd. truthy inner \<and> convert_NoteData inner = Inr nd
      \<and> parse_discovery_contents w pre nd = Inr (res_contents r)"
  by (fastforce simp: parse_discovery_def and_then_def result_def
      split: http_outcome.splits if_splits option.splits sum.splits)

subsection \<open>C6: a result without contents\<close>

lemma bare_page_returns:
  "http_get w Ios_headers u = bare_page \<Longrightarrow>
   decode_router_data w ''{\"bare\":1}'' = Inr bare_data \<Longrightarrow>
   fst (parse_video w u) = Inr bare_result"
  by (simp add: parse_video_steps bare_page_def bare_data_def clip_data_def bare_result_def)

text \<open>
  C6, as stated, at a concrete input: a Douyin page whose decoded data has no image URL and
  no video URL. \<^verbatim>\<open>parse_video\<close> returns a result, and its contents are the empty list.
\<close>

theorem empty_contents_returned_counterexample:
  "vd_image_urls bare_data = [] \<and> vd_video_url bare_data = None
   \<and> parse_video (douyin_pages bare_page clip_page) ''https://m.douyin.com/share/video/1'' =
       (Inr bare_result, [Http_get Ios_headers ''https://m.douyin.com/share/video/1''])
   \<and> res_contents bare_result = []"
proof -
  have "fst (parse_video (douyin_pages bare_page clip_page) ''https://m.douyin.com/share/video/1'')
      = Inr bare_result"
    by (simp add: bare_page_returns)
  then have "parse_video (douyin_pages bare_page clip_page) ''https://m.douyin.com/share/video/1'' =
       (Inr bare_result, [Http_get Ios_headers ''https://m.douyin.com/share/video/1''])"
    using parse_video_pair by metis
  then show ?thesis
    by (simp add: bare_data_def clip_data_def bare_result_def)
qed

text \<open>
  C6, amended. A result can have no contents. The contents of a result that \<^verbatim>\<open>parse_video\<close>
  returns are empty exactly when the decoded data has no image URL and its video URL is
  \<^verbatim>\<open>None\<close> or empty, and for such data with no video URL \<^verbatim>\<open>parse_video\<close> does return a
  result, with no contents. The contents that \<^verbatim>\<open>parse_explore\<close> assembles for a note are
  empty exactly when the note's video URL is not true and its image list is empty, and for
  such a note they are assembled, and empty.
\<close>

theorem contents_empty_without_media:
  "(\<forall>r. fst (parse_video w u) = Inr r \<longrightarrow>
      (\<exists>body g vd. http_get w Ios_headers u = Response 200 body
          \<and> search_router_data body = Some g \<and> decode_router_data w (strip g) = Inr vd
          \<and> (res_contents r = [] \<longleftrightarrow>
               vd_image_urls vd = []
               \<and> (vd_video_url vd = None \<or> vd_video_url vd = Some []))))
   \<and> (\<forall>body g vd. http_get w Ios_headers u = Response 200 body
          \<and> search_router_data body = Some g \<and> g \<noteq> []
          \<and> decode_router_data w (strip g) = Inr vd
          \<and> vd_image_urls vd = [] \<and> vd_video_url vd = None \<longrightarrow>
        (\<exists>r. fst (parse_video w u) = Inr r \<and> res_contents r = []))
   \<and> (\<forall>v cs. NoteDetail_video_url d = Inr v \<and> parse_explore_contents w d = Inr cs \<longrightarrow>
        (cs = [] \<longleftrightarrow> \<not> truthy v \<and> nd_imageList d = []))
   \<and> (\<forall>v. NoteDetail_video_url d = Inr v \<and> \<not> truthy v \<and> nd_imageList d = [] \<longrightarrow>
        parse_explore_contents w d = Inr [])"
proof (intro conjI allI impI)
  fix r assume "fst (parse_video w u) = Inr r"
  from parse_video_result_contents[OF this]
  obtain body g vd where page: "http_get w Ios_headers u = Response 200 body"
      "search_router_data body = Some g" "decode_router_data w (strip g) = Inr vd"
    and c: "parse_video_contents w vd = Inr (res_contents r)"
    by blast
  have "res_contents r = [] \<longleftrightarrow>
      vd_image_urls vd = [] \<and> (vd_video_url vd = None \<or> vd_video_url vd = Some [])"
    using c unfolding parse_video_contents_value
    by (auto split: if_splits option.splits)
  with page show "\<exists>body g vd. http_get w Ios_headers u = Response 200 body
          \<and> search_router_data body = Some g \<and> decode_router_data w (strip g) = Inr vd
          \<and> (res_contents r = [] \<longleftrightarrow>
               vd_image_urls vd = []
               \<and> (vd_video_url vd = None \<or> vd_video_url vd = Some []))"
    by blast
next
  fix body g vd
  assume a: "http_get w Ios_headers u = Response 200 body
          \<and> search_router_data body = Some g \<and> g \<noteq> []
          \<and> decode_router_data w (strip g) = Inr vd
          \<and> vd_image_urls vd = [] \<and> vd_video_url vd = None"
  then have "fst (parse_video w u) =
     and_then (parse_video_contents w vd) (\<lambda>contents.
       Inr (result (vd_desc vd) None (create_author (vd_nickname vd) (vd_avatar_url vd))
              (Some (vd_create_time vd)) contents))"
    using parse_video_decoded by blast
  moreover have "parse_video_contents w vd = Inr []"
    using a by (simp add: parse_video_contents_value)
  ultimately show "\<exists>r. fst (parse_video w u) = Inr r \<and> res_contents r = []"
    by (simp add: and_then_def result_def)
next
  fix v cs
  assume "NoteDetail_video_url d = Inr v \<and> parse_explore_contents w d = Inr cs"
  then show "cs = [] \<longleftrightarrow> \<not> truthy v \<and> nd_imageList d = []"
    using parse_explore_contents_value[of d v w]
    by (auto simp: NoteDetail_image_urls_def split: if_splits)
next
  fix v
  assume "NoteDetail_video_url d = Inr v \<and> \<not> truthy v \<and> nd_imageList d = []"
  then show "parse_explore_contents w d = Inr []"
    using parse_explore_contents_value[of d v w]
    by (simp add: NoteDetail_image_urls_def)
qed

theorem contents_empty_without_media_witness:
  "fst (parse_video (douyin_pages bare_page clip_page) ''https://m.douyin.com/share/video/1'')
     = Inr bare_result \<and> res_contents bare_result = []
   \<and> fst (parse_video (douyin_pages clip_page bare_page) ''https://m.douyin.com/share/video/1'')
     = Inr clip_result \<and> res_contents clip_result \<noteq> []
   \<and> NoteDetail_video_url bare_detail = Inr JNull \<and> \<not> truthy JNull
   \<and> nd_imageList bare_detail = []
   \<and> parse_explore_contents (douyin_pages bare_page clip_page) bare_detail = Inr []
   \<and> NoteDetail_video_url video_detail = Inr (JStr ''v.mp4'')
   \<and> parse_explore_contents (douyin_pages bare_page clip_page) video_detail \<noteq> Inr []"
proof -
  have bare: "fst (parse_video (douyin_pages bare_page clip_page)
       ''https://m.douyin.com/share/video/1'') = Inr bare_result"
    by (simp add: bare_page_returns)
  have clip: "fst (parse_video (douyin_pages clip_page bare_page)
       ''https://m.douyin.com/share/video/1'') = Inr clip_result"
    by (simp add: clip_page_returns clip_result_def)
  have url: "NoteDetail_video_url bare_detail = Inr JNull"
    by (simp add: NoteDetail_video_url_def bare_detail_def video_detail_def)
  have none: "nd_imageList bare_detail = []"
    by (simp add: bare_detail_def video_detail_def)
  note t = contents_empty_without_media
    [of "douyin_pages bare_page clip_page" "''https://m.douyin.com/share/video/1''"
        bare_detail]
  note t' = contents_empty_without_media
    [of "douyin_pages bare_page clip_page" "''https://m.douyin.com/share/video/1''"
        video_detail]
  have one: "parse_explore_contents (douyin_pages bare_page clip_page) bare_detail = Inr []"
    using t url none by simp
  have "\<exists>cs. parse_explore_contents (douyin_pages bare_page clip_page) video_detail = Inr cs"
    using parse_explore_contents_value[OF video_url_video_detail] by simp
  then have two: "parse_explore_contents (douyin_pages bare_page clip_page) video_detail \<noteq> Inr []"
    using t' video_url_video_detail by auto
  show ?thesis
    using bare clip url none one two video_url_video_detail
    by (simp add: bare_result_def clip_result_def)
qed

subsection \<open>C10: the codec preference of the video URL\<close>

lemma nonempty_iff: "nonempty xs \<longleftrightarrow> (case xs of None \<Rightarrow> [] | Some l \<Rightarrow> l) \<noteq> []"
  by (simp add: nonempty_def split: option.splits list.splits)

lemma master_url_hd:
  "(case xs of None \<Rightarrow> [] | Some l \<Rightarrow> l) \<noteq> [] \<Longrightarrow>
   master_url xs =
     (case map_of (hd (case xs of None \<Rightarrow> [] | Some l \<Rightarrow> l)) ''masterUrl'' of
        None \<Rightarrow> Inl KeyError
      | Some m \<Rightarrow> Inr m)"
  by (simp add: master_url_def split: option.splits list.splits)

lemma video_url_by_preference:
  "Video_video_url v =
     (case find (\<lambda>l. l \<noteq> []) (preferred_streams (stream (media v))) of
        None \<Rightarrow> Inr JNull
      | Some l \<Rightarrow>
          (case map_of (hd l) ''masterUrl'' of
             None \<Rightarrow> Inl KeyError
           | Some m \<Rightarrow> Inr m))"
  by (simp add: Video_video_url_def preferred_streams_def Let_def nonempty_iff master_url_hd)

lemma images_in_order_no_video: "VideoContent u c t \<notin> set (images_in_order w urls)"
  by (auto simp: images_in_order_def converted_image_def split: option.splits if_splits)

lemma NoteDetail_video_url_some:
  "NoteDetail_video_url nd = Inr u \<Longrightarrow> u \<noteq> JNull \<Longrightarrow>
   nd_type nd = ''video'' \<and> (\<exists>v. nd_video nd = Some v \<and> Video_video_url v = Inr u)"
  by (auto simp: NoteDetail_video_url_def split: option.splits if_splits)

lemma NoteData_video_url_some:
  "NoteData_video_url nd = Inr u \<Longrightarrow> u \<noteq> JNull \<Longrightarrow>
   note_type nd = ''video'' \<and> (\<exists>v. note_video nd = Some v \<and> Video_video_url v = Inr u)"
  by (auto simp: NoteData_video_url_def split: option.splits if_splits)

lemma parse_explore_contents_video:
  assumes "parse_explore_contents w nd = Inr cs" "VideoContent u c t \<in> set cs"
  shows "NoteDetail_video_url nd = Inr u \<and> truthy u"
proof -
  obtain v where v: "NoteDetail_video_url nd = Inr v"
    using assms(1) by (cases "NoteDetail_video_url nd")
      (simp_all add: parse_explore_contents_def and_then_def)
  from parse_explore_contents_value[OF v, of w] assms images_in_order_no_video
  show ?thesis using v by (auto split: if_splits)
qed

lemma parse_discovery_contents_video_only:
  assumes "parse_discovery_contents w pre nd = Inr cs" "VideoContent u c t \<in> set cs"
  shows "NoteData_video_url nd = Inr u \<and> truthy u"
proof -
  obtain v where v: "NoteData_video_url nd = Inr v"
    using assms(1) by (cases "NoteData_video_url nd")
      (simp_all add: parse_discovery_contents_def and_then_def)
  show ?thesis
  proof (cases "truthy v")
    case False
    from parse_discovery_contents_images[OF v False, of w pre] assms images_in_order_no_video
    show ?thesis by auto
  next
    case True
    with assms v have "u = v"
      by (auto simp: parse_discovery_contents_def and_then_def create_video_content_def
          split: if_splits sum.splits list.splits)
    with True v show ?thesis by simp
  qed
qed

text \<open>
  C10. \<^verbatim>\<open>Video.video_url\<close> takes the stream lists in the order h265, h264, av1, h266, an
  absent list counting as empty: it returns the \<^verbatim>\<open>masterUrl\<close> of the first element of the
  first list that is not empty (raising \<open>KeyError\<close> when that element has no such key),
  and \<^verbatim>\<open>None\<close> when all four are absent or empty. The contents that \<^verbatim>\<open>parse_explore\<close> and
  \<^verbatim>\<open>parse_discovery\<close> assemble hold a video content only when the type of the note is
  \<^verbatim>\<open>video\<close> and that selection, made on the note's video, is not \<^verbatim>\<open>None\<close>; the URL of the
  video content is the selection.
\<close>

theorem video_url_codec_preference:
  "Video_video_url v =
     (case find (\<lambda>l. l \<noteq> []) (preferred_streams (stream (media v))) of
        None \<Rightarrow> Inr JNull
      | Some l \<Rightarrow>
          (case map_of (hd l) ''masterUrl'' of
             None \<Rightarrow> Inl KeyError
           | Some m \<Rightarrow> Inr m))
   \<and> preferred_streams (stream (media v)) =
       map (\<lambda>xs. case xs of None \<Rightarrow> [] | Some l \<Rightarrow> l)
         [h265 (stream (media v)), h264 (stream (media v)),
          av1 (stream (media v)), h266 (stream (media v))]
   \<and> (\<forall>cs u c t. parse_explore_contents w d = Inr cs \<and> VideoContent u c t \<in> set cs \<longrightarrow>
         nd_type d = ''video'' \<and> u \<noteq> JNull
         \<and> (\<exists>vid. nd_video d = Some vid \<and> Video_video_url vid = Inr u))
   \<and> (\<forall>cs u c t. parse_discovery_contents w pre nd = Inr cs \<and> VideoContent u c t \<in> set cs \<longrightarrow>
         note_type nd = ''video'' \<and> u \<noteq> JNull
         \<and> (\<exists>vid. note_video nd = Some vid \<and> Video_video_url vid = Inr u))"
proof (intro conjI allI impI)
  show "Video_video_url v =
     (case find (\<lambda>l. l \<noteq> []) (preferred_streams (stream (media v))) of
        None \<Rightarrow> Inr JNull
      | Some l \<Rightarrow>
          (case map_of (hd l) ''masterUrl'' of
             None \<Rightarrow> Inl KeyError
           | Some m \<Rightarrow> Inr m))"
    by (rule video_url_by_preference)
next
  show "preferred_streams (stream (media v)) =
       map (\<lambda>xs. case xs of None \<Rightarrow> [] | Some l \<Rightarrow> l)
         [h265 (stream (media v)), h264 (stream (media v)),
          av1 (stream (media v)), h266 (stream (media v))]"
    by (simp add: preferred_streams_def)
next
  fix cs u c t
  assume "parse_explore_contents w d = Inr cs \<and> VideoContent u c t \<in> set cs"
  then have a: "NoteDetail_video_url d = Inr u \<and> truthy u"
    using parse_explore_contents_video by blast
  then have n: "u \<noteq> JNull" by auto
  from a n NoteDetail_video_url_some show "nd_type d = ''video''" "u \<noteq> JNull"
    "\<exists>vid. nd_video d = Some vid \<and> Video_video_url vid = Inr u" by blast+
next
  fix cs u c t
  assume "parse_discovery_contents w pre nd = Inr cs \<and> VideoContent u c t \<in> set cs"
  then have a: "NoteData_video_url nd = Inr u \<and> truthy u"
    using parse_discovery_contents_video_only by blast
  then have n: "u \<noteq> JNull" by auto
  from a n NoteData_video_url_some show "note_type nd = ''video''" "u \<noteq> JNull"
    "\<exists>vid. note_video nd = Some vid \<and> Video_video_url vid = Inr u" by blast+
qed

theorem video_url_codec_preference_witness:
  "Video_video_url two_codecs = Inr (JStr ''v.mp4'')
   \<and> find (\<lambda>l. l \<noteq> []) (preferred_streams (stream (media two_codecs)))
        = Some [[(''masterUrl'', JStr ''v.mp4'')]]
   \<and> parse_explore_contents images_world video_detail =
        Inr [VideoContent (JStr ''v.mp4'') (Some ''c.jpg'') None]
   \<and> nd_type video_detail = ''video'' \<and> nd_video video_detail = Some two_codecs
   \<and> parse_discovery_contents images_world (JObj []) video_note_data =
        Inr [VideoContent (JStr ''v.mp4'') (Some ''c.jpg'') None]
   \<and> note_type video_note_data = ''video'' \<and> note_video video_note_data = Some two_codecs"
proof -
  note t = video_url_codec_preference
    [of two_codecs images_world video_detail "JObj []" video_note_data]
  have pref: "find (\<lambda>l. l \<noteq> []) (preferred_streams (stream (media two_codecs)))
        = Some [[(''masterUrl'', JStr ''v.mp4'')]]"
    by (simp add: preferred_streams_def two_codecs_def)
  have url: "Video_video_url two_codecs = Inr (JStr ''v.mp4'')"
    using t pref by simp
  have ex: "parse_explore_contents images_world video_detail =
        Inr [VideoContent (JStr ''v.mp4'') (Some ''c.jpg'') None]"
    using parse_explore_contents_value[OF video_url_video_detail, of images_world]
    by (simp add: NoteDetail_image_urls_def video_detail_def)
  have di: "parse_discovery_contents images_world (JObj []) video_note_data =
        Inr [VideoContent (JStr ''v.mp4'') (Some ''c.jpg'') None]"
    by (rule parse_discovery_contents_video[OF video_url_video_note_data])
       (simp_all add: NoteData_image_urls_def video_note_data_def)
  have "nd_type video_detail = ''video''" "nd_video video_detail = Some two_codecs"
    "note_type video_note_data = ''video''" "note_video video_note_data = Some two_codecs"
    using t ex di by (simp_all add: video_detail_def video_note_data_def)
  with pref url ex di show ?thesis by simp
qed

subsection \<open>C8: decoding a note into its schema\<close>


















subsection \<open>C9: undefined read as null\<close>












lemma split_literal_escape:
  "split_literal (CHR 0x5C # e # s) = map_option (apfst (\<lambda>r. CHR 0x5C # e # r)) (split_literal s)"
  by simp


























end
